theory Spec2Isabelle
  imports Main "HOL-Library.Sublist"
begin

section \<open>SupaPanel: domain routing of a project\<close>

text \<open>
  A shallow embedding of \<^verbatim>\<open>src/lib/traefik.ts\<close> and of the route handlers
  \<^verbatim>\<open>/api/projects/[id]/domain\<close> and \<^verbatim>\<open>/api/settings/panel-domain\<close>.

  JavaScript strings are modelled as \<^typ>\<open>string\<close>: lists of 8-bit characters standing
  for the code units U+0000 to U+00FF. Promises are modelled by their settled value: a
  rejected promise or a thrown exception is \<open>Inl\<close>, a fulfilled one \<open>Inr\<close>. Console
  output is not part of the state.
\<close>

subsection \<open>JavaScript values\<close>

text \<open>
  A number as the code uses it: an integer or \<^verbatim>\<open>NaN\<close>. Integers are kept exact
  and print in decimal (JavaScript rounds magnitudes above \<open>2^53\<close> to a double and
  prints those from \<open>10^21\<close> on with an exponent).
\<close>

datatype js_number = Num int | NaN

text \<open>
  A field of a parsed JSON body: absent, \<^verbatim>\<open>null\<close> or a string. Bodies that do
  not parse, and fields holding numbers, booleans, arrays or objects, are outside the
  model.
\<close>

datatype js_field = Undefined | Null | Str string

text \<open>Truthiness, as \<^verbatim>\<open>if (domain)\<close> tests it.\<close>

fun truthy :: "js_field \<Rightarrow> bool" where
  "truthy Undefined = False"
| "truthy Null = False"
| "truthy (Str s) = (s \<noteq> [])"

text \<open>The string of a truthy field.\<close>

fun str_of :: "js_field \<Rightarrow> string" where
  "str_of (Str s) = s"
| "str_of _ = []"

definition is_digit :: "char \<Rightarrow> bool" where
  "is_digit c = (48 \<le> (of_char c :: nat) \<and> (of_char c :: nat) \<le> 57)"

text \<open>
  \<^verbatim>\<open>StrWhiteSpaceChar\<close> below U+0100: TAB, LF, VT, FF, CR, SP and NBSP.
\<close>

definition is_whitespace :: "char \<Rightarrow> bool" where
  "is_whitespace c = ((of_char c :: nat) \<in> {9, 10, 11, 12, 13, 32, 160})"

definition digit_value :: "char \<Rightarrow> int" where
  "digit_value c = int (of_char c) - 48"

definition digits_value :: "string \<Rightarrow> int" where
  "digits_value ds = foldl (\<lambda>acc c. 10 * acc + digit_value c) 0 ds"

text \<open>
  \<^verbatim>\<open>parseInt(s, 10)\<close>: leading white space is skipped, one sign is read, then
  the longest run of decimal digits; no digit gives \<^verbatim>\<open>NaN\<close>.
\<close>

definition parseInt10 :: "string \<Rightarrow> js_number" where
  "parseInt10 s =
     (let t = dropWhile is_whitespace s;
          neg = (case t of [] \<Rightarrow> False | c # _ \<Rightarrow> c = CHR ''-'');
          u = (case t of [] \<Rightarrow> [] | c # r \<Rightarrow> if c = CHR ''+'' \<or> c = CHR ''-'' then r else t);
          z = takeWhile is_digit u
      in if z = [] then NaN
         else Num (if neg then - digits_value z else digits_value z))"

text \<open>Decimal digits of a natural number, as \<^verbatim>\<open>String(n)\<close> prints them.\<close>

fun show_nat :: "nat \<Rightarrow> string" where
  "show_nat n =
     (if n < 10 then [char_of (48 + n)]
      else show_nat (n div 10) @ [char_of (48 + n mod 10)])"

declare show_nat.simps [simp del]

text \<open>A number inside a template literal.\<close>

fun show_number :: "js_number \<Rightarrow> string" where
  "show_number NaN = ''NaN''"
| "show_number (Num i) = (if i < 0 then CHR ''-'' # show_nat (nat (- i)) else show_nat (nat i))"

subsection \<open>Ports of a project\<close>

text \<open>
  \<^verbatim>\<open>Record<string, string>\<close> is a map; \<^verbatim>\<open>envVars.KEY || 'dflt'\<close> takes the
  default when the key is missing or its value is the empty string.
\<close>

definition or_default :: "string option \<Rightarrow> string \<Rightarrow> string" where
  "or_default v d = (case v of None \<Rightarrow> d | Some s \<Rightarrow> if s = [] then d else s)"

record ports =
  kongPort :: js_number
  studioPort :: js_number

definition getProjectPorts :: "(string \<rightharpoonup> string) \<Rightarrow> ports" where
  "getProjectPorts envVars =
     \<lparr> kongPort = parseInt10 (or_default (envVars ''KONG_HTTP_PORT'') ''8000''),
       studioPort = parseInt10 (or_default (envVars ''STUDIO_PORT'') ''3000'') \<rparr>"

subsection \<open>DNS verification\<close>

text \<open>
  Node's \<^verbatim>\<open>dns.promises\<close>, as far as the code and its claims need it: the answers
  to an A query (\<^verbatim>\<open>resolve4\<close>) and to an AAAA query (\<^verbatim>\<open>resolve6\<close>) for a name.
  A query either rejects with an error code or yields the list of addresses.
\<close>

datatype dns_error = ENOTFOUND | ENODATA | ETIMEOUT | EBADNAME | ESERVFAIL | EREFUSED

record dns =
  resolve4 :: "string \<Rightarrow> dns_error + string list"
  resolve6 :: "string \<Rightarrow> dns_error + string list"

text \<open>
  \<^verbatim>\<open>verifyDomainDNS\<close>: the \<^verbatim>\<open>try\<close> block returns whether the A query gave
  an address, the \<^verbatim>\<open>catch\<close> block returns \<^verbatim>\<open>false\<close>. The result is the
  settled promise: \<open>Inl\<close> would be a rejection seen by the caller.
\<close>

definition verifyDomainDNS :: "dns \<Rightarrow> string \<Rightarrow> dns_error + bool" where
  "verifyDomainDNS d name =
     (case resolve4 d name of
        Inr addresses \<Rightarrow> Inr (0 < length addresses)
      | Inl err \<Rightarrow> Inr False)"

subsection \<open>The domain format\<close>

text \<open>
  Regular expressions as far as the domain pattern needs them. A character class is a
  list of ranges of code units; a single character is the range from itself to itself.
  \<open>Alt\<close> does not occur in the pattern; the matcher needs it for what is left of a
  sequence once its first part may be over.
\<close>

datatype regex =
    Empty
  | Eps
  | Class "(char \<times> char) list"
  | Seq regex regex
  | Alt regex regex
  | Star regex

definition in_range :: "char \<times> char \<Rightarrow> char \<Rightarrow> bool" where
  "in_range r c = ((of_char (fst r) :: nat) \<le> of_char c \<and> (of_char c :: nat) \<le> of_char (snd r))"

definition in_class :: "(char \<times> char) list \<Rightarrow> char \<Rightarrow> bool" where
  "in_class rs c = list_ex (\<lambda>r. in_range r c) rs"

fun nullable :: "regex \<Rightarrow> bool" where
  "nullable Empty = False"
| "nullable Eps = True"
| "nullable (Class rs) = False"
| "nullable (Seq r s) = (nullable r \<and> nullable s)"
| "nullable (Alt r s) = (nullable r \<or> nullable s)"
| "nullable (Star r) = True"

text \<open>What is left of a pattern after it has read one character.\<close>

fun deriv :: "char \<Rightarrow> regex \<Rightarrow> regex" where
  "deriv c Empty = Empty"
| "deriv c Eps = Empty"
| "deriv c (Class rs) = (if in_class rs c then Eps else Empty)"
| "deriv c (Seq r s) =
     (if nullable r then Alt (Seq (deriv c r) s) (deriv c s) else Seq (deriv c r) s)"
| "deriv c (Alt r s) = Alt (deriv c r) (deriv c s)"
| "deriv c (Star r) = Seq (deriv c r) (Star r)"

text \<open>
  \<^verbatim>\<open>regex.test(s)\<close> for a pattern anchored by \<^verbatim>\<open>^\<close> and \<^verbatim>\<open>$\<close>
  (no flags): the whole string has to match.
\<close>

fun regex_test :: "regex \<Rightarrow> string \<Rightarrow> bool" where
  "regex_test r [] = nullable r"
| "regex_test r (c # cs) = regex_test (deriv c r) cs"

text \<open>
  \<^verbatim>\<open>/^[a-zA-Z0-9][a-zA-Z0-9-_.]*\.[a-zA-Z]{2,}$/\<close>, the same literal in the
  project route and in the panel route. In the second class the hyphen stands after
  the range \<^verbatim>\<open>0-9\<close>, so it is a literal hyphen; \<^verbatim>\<open>{2,}\<close> is two copies
  followed by a star.
\<close>

definition alnum_class :: "(char \<times> char) list" where
  "alnum_class = [(CHR ''a'', CHR ''z''), (CHR ''A'', CHR ''Z''), (CHR ''0'', CHR ''9'')]"

definition body_class :: "(char \<times> char) list" where
  "body_class = [(CHR ''a'', CHR ''z''), (CHR ''A'', CHR ''Z''), (CHR ''0'', CHR ''9''),
                 (CHR ''-'', CHR ''-''), (CHR ''_'', CHR ''_''), (CHR ''.'', CHR ''.'')]"

definition alpha_class :: "(char \<times> char) list" where
  "alpha_class = [(CHR ''a'', CHR ''z''), (CHR ''A'', CHR ''Z'')]"

definition domainRegex :: regex where
  "domainRegex =
     Seq (Class alnum_class)
       (Seq (Star (Class body_class))
         (Seq (Class [(CHR ''.'', CHR ''.'')])
           (Seq (Class alpha_class) (Seq (Class alpha_class) (Star (Class alpha_class))))))"

definition domainRegex_test :: "string \<Rightarrow> bool" where
  "domainRegex_test s = regex_test domainRegex s"

text \<open>
  The format in the specification's words: the string starts with an alphanumeric
  character; the interior is made of alphanumerics, hyphens, underscores and dots; it
  ends with a dot and a label of two or more letters.
\<close>

definition is_alpha :: "char \<Rightarrow> bool" where
  "is_alpha c = ((65 \<le> (of_char c :: nat) \<and> (of_char c :: nat) \<le> 90) \<or>
                 (97 \<le> (of_char c :: nat) \<and> (of_char c :: nat) \<le> 122))"

definition is_alnum :: "char \<Rightarrow> bool" where
  "is_alnum c = (is_alpha c \<or> is_digit c)"

definition is_interior :: "char \<Rightarrow> bool" where
  "is_interior c = (is_alnum c \<or> c = CHR ''-'' \<or> c = CHR ''_'' \<or> c = CHR ''.'')"

definition spec_domain_format :: "string \<Rightarrow> bool" where
  "spec_domain_format s =
     (case s of
        [] \<Rightarrow> False
      | c # rest \<Rightarrow>
          is_alnum c \<and>
          (let label = takeWhile is_alpha (rev rest);
               before = dropWhile is_alpha (rev rest)
           in 2 \<le> length label \<and>
              (case before of
                 [] \<Rightarrow> False
               | d # interior \<Rightarrow> d = CHR ''.'' \<and> list_all is_interior interior)))"

text \<open>The words matched by a pattern.\<close>

inductive_set star :: "string set \<Rightarrow> string set" for A :: "string set" where
  star_nil: "[] \<in> star A"
| star_step: "u \<in> A \<Longrightarrow> v \<in> star A \<Longrightarrow> u @ v \<in> star A"

fun lang :: "regex \<Rightarrow> string set" where
  "lang Empty = {}"
| "lang Eps = {[]}"
| "lang (Class rs) = {[c] | c. in_class rs c}"
| "lang (Seq r s) = {u @ v | u v. u \<in> lang r \<and> v \<in> lang s}"
| "lang (Alt r s) = lang r \<union> lang s"
| "lang (Star r) = star (lang r)"

subsection \<open>The process environment\<close>

text \<open>
  A point in time, with the fields \<^verbatim>\<open>toISOString\<close> prints. The year is printed
  with four digits, as it is for the years 0 to 9999.
\<close>

record js_date =
  year :: nat
  month :: nat
  day :: nat
  hours :: nat
  minutes :: nat
  seconds :: nat
  milliseconds :: nat

definition pad :: "nat \<Rightarrow> nat \<Rightarrow> string" where
  "pad w n = replicate (w - length (show_nat n)) (CHR ''0'') @ show_nat n"

definition toISOString :: "js_date \<Rightarrow> string" where
  "toISOString t =
     pad 4 (year t) @ ''-'' @ pad 2 (month t) @ ''-'' @ pad 2 (day t) @ ''T'' @
     pad 2 (hours t) @ '':'' @ pad 2 (minutes t) @ '':'' @ pad 2 (seconds t) @ ''.'' @
     pad 3 (milliseconds t) @ ''Z''"

text \<open>
  What a request handler reads from outside the database and the file system: the
  process environment, the clock, the resolver, and \<^verbatim>\<open>validateSession\<close> of
  \<^verbatim>\<open>@/lib/auth\<close> (whether a session token is that of a live session).
\<close>

record world =
  SUPAPANEL_MODE :: "string option"
  cwd :: string
  now :: js_date
  resolver :: dns
  validateSession :: "string \<Rightarrow> bool"

subsection \<open>Paths\<close>

text \<open>
  \<^verbatim>\<open>path.join\<close> of Node on POSIX: the non-empty arguments are joined with a
  slash and the result is normalised.
\<close>

fun split_on :: "char \<Rightarrow> string \<Rightarrow> string list" where
  "split_on sep [] = [[]]"
| "split_on sep (c # cs) =
     (if c = sep then [] # split_on sep cs
      else (case split_on sep cs of [] \<Rightarrow> [[c]] | l # ls \<Rightarrow> (c # l) # ls))"

fun join_with :: "string \<Rightarrow> string list \<Rightarrow> string" where
  "join_with sep [] = []"
| "join_with sep [l] = l"
| "join_with sep (l # ls) = l @ sep @ join_with sep ls"

text \<open>
  \<^verbatim>\<open>normalizeString\<close>: the segments still to read, and the segments kept so far,
  last one first.
\<close>

fun normalizeSegments :: "bool \<Rightarrow> string list \<Rightarrow> string list \<Rightarrow> string list" where
  "normalizeSegments allowAboveRoot [] res = rev res"
| "normalizeSegments allowAboveRoot (s # ss) res =
     (if s = [] \<or> s = ''.'' then normalizeSegments allowAboveRoot ss res
      else if s = ''..'' then
        (case res of
           [] \<Rightarrow> normalizeSegments allowAboveRoot ss (if allowAboveRoot then [''..''] else [])
         | r # rs \<Rightarrow>
             if r \<noteq> ''..'' then normalizeSegments allowAboveRoot ss rs
             else normalizeSegments allowAboveRoot ss (if allowAboveRoot then ''..'' # res else res))
      else normalizeSegments allowAboveRoot ss (s # res))"

definition path_normalize :: "string \<Rightarrow> string" where
  "path_normalize p =
     (if p = [] then ''.''
      else
        let isAbsolute = (hd p = CHR ''/'');
            trailingSeparator = (last p = CHR ''/'');
            q = join_with ''/'' (normalizeSegments (\<not> isAbsolute) (split_on (CHR ''/'') p) [])
        in if q = [] then (if isAbsolute then ''/'' else if trailingSeparator then ''./'' else ''.'')
           else (if isAbsolute then ''/'' else []) @ q @ (if trailingSeparator then ''/'' else []))"

definition path_join :: "string list \<Rightarrow> string" where
  "path_join args =
     (case filter (\<lambda>a. a \<noteq> []) args of
        [] \<Rightarrow> ''.''
      | a # as \<Rightarrow> path_normalize (join_with ''/'' (a # as)))"

definition getTraefikDynamicPath :: "world \<Rightarrow> string" where
  "getTraefikDynamicPath w =
     (let mode = or_default (SUPAPANEL_MODE w) ''development''
      in if mode = ''production'' then ''/etc/supapanel/traefik/dynamic''
         else path_join [cwd w, ''traefik'', ''dynamic''])"

subsection \<open>The file system\<close>

text \<open>
  The files, by path. \<^verbatim>\<open>fs.mkdir\<close> with \<^verbatim>\<open>recursive\<close> makes the directory of
  a file before it is written, so that \<^verbatim>\<open>fs.writeFile\<close> creates or replaces the
  file; directories are not kept in the model. \<^verbatim>\<open>fs.unlink\<close> of a path without a
  file rejects with \<^verbatim>\<open>ENOENT\<close>. Faults of the disk are not modelled.
\<close>

type_synonym files = "string \<rightharpoonup> string"

datatype errno = ENOENT | EACCES | EIO

definition writeFile :: "string \<Rightarrow> string \<Rightarrow> files \<Rightarrow> files" where
  "writeFile path content fs = fs(path \<mapsto> content)"

definition unlink :: "string \<Rightarrow> files \<Rightarrow> errno + files" where
  "unlink path fs = (case fs path of None \<Rightarrow> Inl ENOENT | Some _ \<Rightarrow> Inr (fs(path := None)))"

subsection \<open>Rendering the routing document of a project\<close>

definition join_lines :: "string list \<Rightarrow> string" where
  "join_lines ls = join_with [CHR 0x0A] ls"

text \<open>
  The four template literals that \<^verbatim>\<open>generateProjectTraefikConfig\<close> appends to
  \<^verbatim>\<open>routersConfig\<close> and \<^verbatim>\<open>servicesConfig\<close>, each given by its lines and
  joined with line breaks. Each starts with a line break, hence with an empty first
  line.
\<close>

definition apiRouters_lines :: "string \<Rightarrow> string \<Rightarrow> string list" where
  \<open>apiRouters_lines projectSlug domain' =
    [[],
     ''    # Main API router (Kong gateway)'',
     ''    '' @ projectSlug @ ''-api:'',
     ''      rule: "Host(`'' @ domain' @ ''`)"'',
     ''      entryPoints:'',
     ''        - websecure'',
     ''      service: '' @ projectSlug @ ''-api'',
     ''      tls:'',
     ''        certResolver: letsencrypt'',
     ''      priority: 10'',
     ''    '',
     ''    # HTTP redirect for API'',
     ''    '' @ projectSlug @ ''-api-http:'',
     ''      rule: "Host(`'' @ domain' @ ''`)"'',
     ''      entryPoints:'',
     ''        - web'',
     ''      middlewares:'',
     ''        - https-redirect'',
     ''      service: '' @ projectSlug @ ''-api'',
     ''      priority: 5'']\<close>

definition apiRouters :: "string \<Rightarrow> string \<Rightarrow> string" where
  "apiRouters projectSlug domain' = join_lines (apiRouters_lines projectSlug domain')"

definition apiServices_lines :: "string \<Rightarrow> js_number \<Rightarrow> string list" where
  \<open>apiServices_lines projectSlug kongPort' =
    [[],
     ''    '' @ projectSlug @ ''-api:'',
     ''      loadBalancer:'',
     ''        servers:'',
     ''          - url: "http://'' @ projectSlug @ ''-kong:'' @ show_number kongPort' @ ''"'',
     ''        healthCheck:'',
     ''          path: /health'',
     ''          interval: 30s'',
     ''          timeout: 5s'']\<close>

definition apiServices :: "string \<Rightarrow> js_number \<Rightarrow> string" where
  "apiServices projectSlug kongPort' = join_lines (apiServices_lines projectSlug kongPort')"

definition studioRouters_lines :: "string \<Rightarrow> string \<Rightarrow> string list" where
  \<open>studioRouters_lines projectSlug studioDomain' =
    [[],
     ''    '',
     ''    # Studio router'',
     ''    '' @ projectSlug @ ''-studio:'',
     ''      rule: "Host(`'' @ studioDomain' @ ''`)"'',
     ''      entryPoints:'',
     ''        - websecure'',
     ''      service: '' @ projectSlug @ ''-studio'',
     ''      tls:'',
     ''        certResolver: letsencrypt'',
     ''      priority: 10'',
     ''    '',
     ''    # HTTP redirect for Studio'',
     ''    '' @ projectSlug @ ''-studio-http:'',
     ''      rule: "Host(`'' @ studioDomain' @ ''`)"'',
     ''      entryPoints:'',
     ''        - web'',
     ''      middlewares:'',
     ''        - https-redirect'',
     ''      service: '' @ projectSlug @ ''-studio'',
     ''      priority: 5'']\<close>

definition studioRouters :: "string \<Rightarrow> string \<Rightarrow> string" where
  "studioRouters projectSlug studioDomain' = join_lines (studioRouters_lines projectSlug studioDomain')"

definition studioServices_lines :: "string \<Rightarrow> js_number \<Rightarrow> string list" where
  \<open>studioServices_lines projectSlug studioPort' =
    [[],
     ''    '',
     ''    '' @ projectSlug @ ''-studio:'',
     ''      loadBalancer:'',
     ''        servers:'',
     ''          - url: "http://'' @ projectSlug @ ''-studio:'' @ show_number studioPort' @ ''"'']\<close>

definition studioServices :: "string \<Rightarrow> js_number \<Rightarrow> string" where
  "studioServices projectSlug studioPort' = join_lines (studioServices_lines projectSlug studioPort')"

text \<open>
  The document \<^verbatim>\<open>traefikConfig\<close> of \<^verbatim>\<open>generateProjectTraefikConfig\<close>. The
  arguments are the fields of the \<^verbatim>\<open>TraefikConfig\<close> the function destructures;
  \<^verbatim>\<open>studioDomain\<close> is optional. A string is truthy when it is not empty.
\<close>

definition traefikConfig ::
  "js_date \<Rightarrow> string \<Rightarrow> string \<Rightarrow> string option \<Rightarrow> js_number \<Rightarrow> js_number \<Rightarrow> string" where
  "traefikConfig t projectSlug domain' studioDomain' kongPort' studioPort' =
     (let routersConfig =
            (if domain' \<noteq> [] then apiRouters projectSlug domain' else []) @
            (if or_default studioDomain' [] \<noteq> []
             then studioRouters projectSlug (or_default studioDomain' []) else []);
          servicesConfig =
            (if domain' \<noteq> [] then apiServices projectSlug kongPort' else []) @
            (if or_default studioDomain' [] \<noteq> []
             then studioServices projectSlug studioPort' else [])
      in join_lines
        [''# Auto-generated Traefik routing for project: '' @ projectSlug,
         ''# API Domain: '' @ or_default (Some domain') ''not configured'',
         ''# Studio Domain: '' @ or_default studioDomain' ''not configured'',
         ''# Generated at: '' @ toISOString t,
         [],
         ''http:'',
         ''  routers:'' @ routersConfig,
         [],
         ''  middlewares:'',
         ''    https-redirect:'',
         ''      redirectScheme:'',
         ''        scheme: https'',
         ''        permanent: true'',
         [],
         ''  services:'' @ servicesConfig,
         []])"

definition projectConfigPath :: "world \<Rightarrow> string \<Rightarrow> string" where
  "projectConfigPath w projectSlug = path_join [getTraefikDynamicPath w, projectSlug @ ''.yml'']"

definition generateProjectTraefikConfig ::
  "world \<Rightarrow> string \<Rightarrow> string \<Rightarrow> string option \<Rightarrow> js_number \<Rightarrow> js_number \<Rightarrow> files \<Rightarrow> files" where
  "generateProjectTraefikConfig w projectSlug domain' studioDomain' kongPort' studioPort' fs =
     writeFile (projectConfigPath w projectSlug)
       (traefikConfig (now w) projectSlug domain' studioDomain' kongPort' studioPort') fs"

definition updateProjectDomain ::
  "world \<Rightarrow> string \<Rightarrow> string \<Rightarrow> js_number \<Rightarrow> js_number \<Rightarrow> files \<Rightarrow> files" where
  "updateProjectDomain w projectSlug newDomain kongPort' studioPort' fs =
     generateProjectTraefikConfig w projectSlug newDomain None kongPort' studioPort' fs"

text \<open>
  \<^verbatim>\<open>removeProjectTraefikConfig\<close>: the file is unlinked. The \<^verbatim>\<open>catch\<close> block
  swallows every error; its test of the code only decides whether the error is logged.
\<close>

definition removeProjectTraefikConfig :: "world \<Rightarrow> string \<Rightarrow> files \<Rightarrow> files" where
  "removeProjectTraefikConfig w projectSlug fs =
     (case unlink (projectConfigPath w projectSlug) fs of
        Inr fs' \<Rightarrow> fs'
      | Inl err \<Rightarrow> (if err \<noteq> ENOENT then fs else fs))"

subsection \<open>Rendering the routing document of the panel\<close>

definition panelConfig :: "js_date \<Rightarrow> string \<Rightarrow> string" where
  \<open>panelConfig t domain' = join_lines
    [''# Auto-generated Traefik routing for SupaPanel'',
     ''# Domain: '' @ domain',
     ''# Generated at: '' @ toISOString t,
     [],
     ''http:'',
     ''  routers:'',
     ''    # Panel HTTPS router'',
     ''    supapanel:'',
     ''      rule: "Host(`'' @ domain' @ ''`)"'',
     ''      entryPoints:'',
     ''        - websecure'',
     ''      service: supapanel'',
     ''      tls:'',
     ''        certResolver: letsencrypt'',
     ''      priority: 100'',
     ''    '',
     ''    # Panel HTTP redirect router'',
     ''    supapanel-http:'',
     ''      rule: "Host(`'' @ domain' @ ''`)"'',
     ''      entryPoints:'',
     ''        - web'',
     ''      middlewares:'',
     ''        - https-redirect'',
     ''      service: supapanel'',
     ''      priority: 50'',
     [],
     ''  middlewares:'',
     ''    https-redirect:'',
     ''      redirectScheme:'',
     ''        scheme: https'',
     ''        permanent: true'',
     [],
     ''  services:'',
     ''    supapanel:'',
     ''      loadBalancer:'',
     ''        servers:'',
     ''          - url: "http://supapanel-panel:3000"'',
     []]\<close>

definition emptyConfig :: string where
  "emptyConfig = join_lines
    [''# SupaPanel Panel Routing'',
     ''# No custom domain configured - access via IP:3000'',
     []]"

definition panelConfigPath :: "world \<Rightarrow> string" where
  "panelConfigPath w = path_join [getTraefikDynamicPath w, ''panel.yml'']"

definition generatePanelTraefikConfig :: "world \<Rightarrow> string \<Rightarrow> files \<Rightarrow> files" where
  "generatePanelTraefikConfig w domain' fs =
     writeFile (panelConfigPath w) (panelConfig (now w) domain') fs"

definition removePanelTraefikConfig :: "world \<Rightarrow> files \<Rightarrow> files" where
  "removePanelTraefikConfig w fs = writeFile (panelConfigPath w) emptyConfig fs"

subsection \<open>The database\<close>

text \<open>
  A row of the \<^verbatim>\<open>Project\<close> table, with the columns the domain routes read or
  write, and its \<^verbatim>\<open>envVars\<close> relation as key and value pairs. A nullable column
  is an option.
\<close>

record project =
  project_id :: string
  slug :: string
  domain :: "string option"
  domainVerified :: bool
  studioDomain :: "string option"
  studioDomainVerified :: bool
  envVars :: "(string \<times> string) list"

text \<open>
  The persistent state: both tables and the files. Faults of the database connection
  are not modelled.
\<close>

record state =
  projects :: "project list"
  panelSettings :: "string \<rightharpoonup> string"
  files :: files

text \<open>\<^verbatim>\<open>prisma.project.findUnique({ where: { id } })\<close>.\<close>

definition findUnique :: "string \<Rightarrow> project list \<Rightarrow> project option" where
  "findUnique pid ps = find (\<lambda>p. project_id p = pid) ps"

text \<open>\<^verbatim>\<open>prisma.project.findFirst({ where })\<close>, the condition as a predicate.\<close>

definition findFirst :: "(project \<Rightarrow> bool) \<Rightarrow> project list \<Rightarrow> project option" where
  "findFirst cond ps = find cond ps"

fun update_where :: "string \<Rightarrow> (project \<Rightarrow> project) \<Rightarrow> project list \<Rightarrow> project list" where
  "update_where pid f [] = []"
| "update_where pid f (p # ps) =
     (if project_id p = pid then f p # ps else p # update_where pid f ps)"

text \<open>
  \<^verbatim>\<open>prisma.project.update({ where: { id }, data })\<close>: the row after the update
  and the table, or the error that no row has this id.
\<close>

datatype db_error = RecordNotFound

definition project_update ::
  "string \<Rightarrow> (project \<Rightarrow> project) \<Rightarrow> project list \<Rightarrow> db_error + project \<times> project list" where
  "project_update pid f ps =
     (case findUnique pid ps of
        None \<Rightarrow> Inl RecordNotFound
      | Some p \<Rightarrow> Inr (f p, update_where pid f ps))"

subsection \<open>The route handlers\<close>

text \<open>A response: an error with its status, or one of the success bodies (status 200).\<close>

datatype response =
    ErrorResponse nat string
  | DomainSaved "string option" bool "string option" bool string
  | PanelSaved string bool string
  | Removed string

text \<open>
  The session check at the head of every handler; \<open>None\<close> lets the request through.
  The cookie may be missing, and an empty token is falsy.
\<close>

definition authenticate :: "world \<Rightarrow> string option \<Rightarrow> response option" where
  "authenticate w sessionToken =
     (case sessionToken of
        None \<Rightarrow> Some (ErrorResponse 401 ''Unauthorized'')
      | Some token \<Rightarrow>
          if token = [] then Some (ErrorResponse 401 ''Unauthorized'')
          else if \<not> validateSession w token then Some (ErrorResponse 401 ''Invalid session'')
          else None)"

text \<open>The \<^verbatim>\<open>updateData\<close> of the project route's \<^verbatim>\<open>PUT\<close>, as a change of the row.\<close>

definition updateData :: "js_field \<Rightarrow> js_field \<Rightarrow> bool \<Rightarrow> bool \<Rightarrow> project \<Rightarrow> project" where
  "updateData domain' studioDomain' apiDnsValid studioDnsValid p =
     (let p1 = (if domain' \<noteq> Undefined
                then p\<lparr> domain := (if truthy domain' then Some (str_of domain') else None),
                        domainVerified := (if truthy domain' then apiDnsValid else False) \<rparr>
                else p)
      in if studioDomain' \<noteq> Undefined
         then p1\<lparr> studioDomain := (if truthy studioDomain' then Some (str_of studioDomain') else None),
                  studioDomainVerified := (if truthy studioDomain' then studioDnsValid else False) \<rparr>
         else p1)"

definition envVarsMap :: "(string \<times> string) list \<Rightarrow> (string \<rightharpoonup> string)" where
  "envVarsMap evs = foldl (\<lambda>m e. m(fst e \<mapsto> snd e)) Map.empty evs"

definition responseMessage :: "js_field \<Rightarrow> js_field \<Rightarrow> bool \<Rightarrow> bool \<Rightarrow> string" where
  "responseMessage domain' studioDomain' apiDnsValid studioDnsValid =
     (let messages =
            (if truthy domain'
             then [if apiDnsValid then ''API domain verified''
                   else ''API domain configured (DNS pending)'']
             else []) @
            (if truthy studioDomain'
             then [if studioDnsValid then ''Studio domain verified''
                   else ''Studio domain configured (DNS pending)'']
             else [])
      in or_default (Some (join_with ''. '' messages)) ''Domains updated successfully'')"

text \<open>
  \<^verbatim>\<open>PUT /api/projects/[id]/domain\<close>. The arguments are the session cookie, the id
  of the route and the two fields of the JSON body. An exception inside the
  \<^verbatim>\<open>try\<close> block ends in the response 500, with the state as it is by then.
\<close>

definition PUT_project_domain ::
  "world \<Rightarrow> string option \<Rightarrow> string \<Rightarrow> js_field \<Rightarrow> js_field \<Rightarrow> state \<Rightarrow> response \<times> state" where
  "PUT_project_domain w sessionToken pid domain' studioDomain' st =
     (case authenticate w sessionToken of
        Some r \<Rightarrow> (r, st)
      | None \<Rightarrow>
     if truthy domain' \<and> \<not> domainRegex_test (str_of domain')
     then (ErrorResponse 400 ''Invalid API domain format'', st)
     else if truthy studioDomain' \<and> \<not> domainRegex_test (str_of studioDomain')
     then (ErrorResponse 400 ''Invalid Studio domain format'', st)
     else if \<not> truthy domain' \<and> \<not> truthy studioDomain'
     then (ErrorResponse 400 ''At least one domain is required'', st)
     else
     (case findUnique pid (projects st) of
        None \<Rightarrow> (ErrorResponse 404 ''Project not found'', st)
      | Some project \<Rightarrow>
     if truthy domain' \<and>
        findFirst (\<lambda>p. domain p = Some (str_of domain') \<and> project_id p \<noteq> pid) (projects st) \<noteq> None
     then (ErrorResponse 409 ''API domain is already in use'', st)
     else if truthy studioDomain' \<and>
        findFirst (\<lambda>p. studioDomain p = Some (str_of studioDomain') \<and> project_id p \<noteq> pid) (projects st) \<noteq> None
     then (ErrorResponse 409 ''Studio domain is already in use'', st)
     else
     (case (if truthy domain' then verifyDomainDNS (resolver w) (str_of domain') else Inr False) of
        Inl err \<Rightarrow> (ErrorResponse 500 ''Internal server error'', st)
      | Inr apiDnsValid \<Rightarrow>
     (case (if truthy studioDomain' then verifyDomainDNS (resolver w) (str_of studioDomain') else Inr False) of
        Inl err \<Rightarrow> (ErrorResponse 500 ''Internal server error'', st)
      | Inr studioDnsValid \<Rightarrow>
     (case project_update pid (updateData domain' studioDomain' apiDnsValid studioDnsValid) (projects st) of
        Inl err \<Rightarrow> (ErrorResponse 500 ''Internal server error'', st)
      | Inr (updatedProject, projects') \<Rightarrow>
     (let st1 = st\<lparr> projects := projects' \<rparr>;
          ports = getProjectPorts (envVarsMap (envVars project));
          finalDomain = (if truthy domain' then Some (str_of domain') else domain updatedProject);
          finalStudioDomain =
            (if truthy studioDomain' then Some (str_of studioDomain') else studioDomain updatedProject);
          st2 = (if or_default finalDomain [] \<noteq> [] \<or> or_default finalStudioDomain [] \<noteq> []
                 then st1\<lparr> files :=
                        generateProjectTraefikConfig w (slug project)
                          (or_default finalDomain []) (Some (or_default finalStudioDomain []))
                          (kongPort ports) (studioPort ports) (files st1) \<rparr>
                 else st1)
      in (DomainSaved (domain updatedProject) (domainVerified updatedProject)
            (studioDomain updatedProject) (studioDomainVerified updatedProject)
            (responseMessage domain' studioDomain' apiDnsValid studioDnsValid),
          st2)))))))"

text \<open>\<^verbatim>\<open>DELETE /api/projects/[id]/domain\<close>.\<close>

definition DELETE_project_domain ::
  "world \<Rightarrow> string option \<Rightarrow> string \<Rightarrow> state \<Rightarrow> response \<times> state" where
  "DELETE_project_domain w sessionToken pid st =
     (case authenticate w sessionToken of
        Some r \<Rightarrow> (r, st)
      | None \<Rightarrow>
     (case findUnique pid (projects st) of
        None \<Rightarrow> (ErrorResponse 404 ''Project not found'', st)
      | Some project \<Rightarrow>
     (case project_update pid
             (\<lambda>p. p\<lparr> domain := None, domainVerified := False,
                      studioDomain := None, studioDomainVerified := False \<rparr>) (projects st) of
        Inl err \<Rightarrow> (ErrorResponse 500 ''Internal server error'', st)
      | Inr (updated, projects') \<Rightarrow>
          (Removed ''Domains removed successfully'',
           st\<lparr> projects := projects',
                files := removeProjectTraefikConfig w (slug project) (files st) \<rparr>))))"

text \<open>\<^verbatim>\<open>PUT /api/settings/panel-domain\<close>; both settings are upserted by key.\<close>

definition PUT_panel_domain ::
  "world \<Rightarrow> string option \<Rightarrow> js_field \<Rightarrow> state \<Rightarrow> response \<times> state" where
  "PUT_panel_domain w sessionToken domain' st =
     (case authenticate w sessionToken of
        Some r \<Rightarrow> (r, st)
      | None \<Rightarrow>
     if \<not> truthy domain' then (ErrorResponse 400 ''Domain is required'', st)
     else if \<not> domainRegex_test (str_of domain')
     then (ErrorResponse 400 ''Invalid domain format'', st)
     else
     (case verifyDomainDNS (resolver w) (str_of domain') of
        Inl err \<Rightarrow> (ErrorResponse 500 ''Internal server error'', st)
      | Inr dnsValid \<Rightarrow>
          (PanelSaved (str_of domain') dnsValid
             (if dnsValid
              then ''Panel domain configured and verified successfully. The panel will be accessible at https://'' @ str_of domain'
              else ''Panel domain configured. DNS verification pending - make sure your domain points to this server.''),
           st\<lparr> panelSettings :=
                  (panelSettings st)
                    (''panel_domain'' \<mapsto> str_of domain',
                     ''panel_domain_verified'' \<mapsto> (if dnsValid then ''true'' else ''false'')),
                files := generatePanelTraefikConfig w (str_of domain') (files st) \<rparr>)))"

text \<open>\<^verbatim>\<open>DELETE /api/settings/panel-domain\<close>.\<close>

definition DELETE_panel_domain :: "world \<Rightarrow> string option \<Rightarrow> state \<Rightarrow> response \<times> state" where
  "DELETE_panel_domain w sessionToken st =
     (case authenticate w sessionToken of
        Some r \<Rightarrow> (r, st)
      | None \<Rightarrow>
          (Removed ''Panel domain removed successfully'',
           st\<lparr> panelSettings :=
                  (panelSettings st)(''panel_domain'' := None, ''panel_domain_verified'' := None),
                files := removePanelTraefikConfig w (files st) \<rparr>))"

subsection \<open>Reading a routing document\<close>

text \<open>
  What a routing document declares, read the way a YAML reader groups its lines; the
  claims about the number and the shape of routers and services are stated with it.
  A line is content when it is neither blank nor a comment. A section of
  \<^verbatim>\<open>http:\<close> starts after its key at indentation 2 and ends before the next content
  line at indentation 2 or less. Inside a section a line at indentation 4 declares an
  entry, named by the line without its colon, and the deeper lines that follow are the
  body of the entry.
\<close>

definition lines_of :: "string \<Rightarrow> string list" where
  "lines_of doc = split_on (CHR 0x0A) doc"

definition indent :: "string \<Rightarrow> nat" where
  "indent l = length (takeWhile (\<lambda>c. c = CHR '' '') l)"

definition is_content :: "string \<Rightarrow> bool" where
  "is_content l =
     (case dropWhile (\<lambda>c. c = CHR '' '') l of [] \<Rightarrow> False | c # _ \<Rightarrow> c \<noteq> CHR ''#'')"

definition section_of :: "string \<Rightarrow> string list \<Rightarrow> string list" where
  "section_of name ls =
     takeWhile (\<lambda>l. 2 < indent l) (drop 1 (dropWhile (\<lambda>l. l \<noteq> ''  '' @ name @ '':'') ls))"

fun declarations :: "string list \<Rightarrow> (string \<times> string list) list" where
  "declarations [] = []"
| "declarations (l # ls) =
     (if indent l = 4
      then (butlast (drop 4 l), takeWhile (\<lambda>x. 4 < indent x) ls) # declarations ls
      else declarations ls)"

definition routers :: "string \<Rightarrow> (string \<times> string list) list" where
  "routers doc = declarations (section_of ''routers'' (filter is_content (lines_of doc)))"

definition services :: "string \<Rightarrow> (string \<times> string list) list" where
  "services doc = declarations (section_of ''services'' (filter is_content (lines_of doc)))"

subsection \<open>A concrete installation\<close>

text \<open>
  The end-to-end scenario of the specification, after the API domain of project
  \<^verbatim>\<open>demo\<close> has been set: a production panel, a resolver that finds no name, one
  live session, a second project \<^verbatim>\<open>alpha\<close> with both domains, and the routing
  file of \<^verbatim>\<open>demo\<close> on disk.
\<close>

definition demo_date :: js_date where
  "demo_date = \<lparr> year = 2025, month = 1, day = 9, hours = 13, minutes = 5, seconds = 0,
                  milliseconds = 42 \<rparr>"

definition demo_dns :: dns where
  "demo_dns = \<lparr> resolve4 = (\<lambda>name. Inl ENOTFOUND), resolve6 = (\<lambda>name. Inl ENOTFOUND) \<rparr>"

definition demo_world :: world where
  "demo_world = \<lparr> SUPAPANEL_MODE = Some ''production'', cwd = ''/app'', now = demo_date,
                   resolver = demo_dns, validateSession = (\<lambda>token. token = ''session-1'') \<rparr>"

definition project_alpha :: project where
  "project_alpha = \<lparr> project_id = ''A'', slug = ''alpha'',
                      domain = Some ''api.alpha.test'', domainVerified = True,
                      studioDomain = Some ''studio.alpha.test'', studioDomainVerified = True,
                      envVars = [] \<rparr>"

definition project_demo :: project where
  "project_demo = \<lparr> project_id = ''B'', slug = ''demo'',
                     domain = Some ''api.demo.test'', domainVerified = False,
                     studioDomain = None, studioDomainVerified = False,
                     envVars = [(''KONG_HTTP_PORT'', ''8080'')] \<rparr>"

definition demo_yml :: string where
  "demo_yml = ''/etc/supapanel/traefik/dynamic/demo.yml''"

definition demo_state :: state where
  "demo_state = \<lparr> projects = [project_alpha, project_demo], panelSettings = Map.empty,
                   files = [demo_yml \<mapsto>
                     traefikConfig demo_date ''demo'' ''api.demo.test'' (Some []) (Num 8080) (Num 3000)] \<rparr>"

section \<open>Properties\<close>

subsection \<open>The port allocator\<close>

lemma parseInt10_8000: "parseInt10 ''8000'' = Num 8000"
  by (simp add: parseInt10_def is_whitespace_def is_digit_def digits_value_def digit_value_def)

lemma parseInt10_3000: "parseInt10 ''3000'' = Num 3000"
  by (simp add: parseInt10_def is_whitespace_def is_digit_def digits_value_def digit_value_def)

lemma parseInt10_8080: "parseInt10 ''8080'' = Num 8080"
  by (simp add: parseInt10_def is_whitespace_def is_digit_def digits_value_def digit_value_def)


text \<open>
  Claim C8. \<^verbatim>\<open>getProjectPorts\<close> is a function of the environment-variable map
  alone. A key with a non-empty value gives the port parsed from that value, a missing
  key gives the default (8000 for the gateway, 3000 for the UI), and a map with
  \<^verbatim>\<open>KONG_HTTP_PORT=8080\<close> and no \<^verbatim>\<open>STUDIO_PORT\<close> gives the ports 8080 and 3000.
\<close>

theorem getProjectPorts_parses_with_defaults:
  "(\<forall>v. ev ''KONG_HTTP_PORT'' = Some v \<and> v \<noteq> [] \<longrightarrow>
        kongPort (getProjectPorts ev) = parseInt10 v) \<and>
   (\<forall>v. ev ''STUDIO_PORT'' = Some v \<and> v \<noteq> [] \<longrightarrow>
        studioPort (getProjectPorts ev) = parseInt10 v) \<and>
   (ev ''KONG_HTTP_PORT'' = None \<longrightarrow> kongPort (getProjectPorts ev) = Num 8000) \<and>
   (ev ''STUDIO_PORT'' = None \<longrightarrow> studioPort (getProjectPorts ev) = Num 3000) \<and>
   (ev ''KONG_HTTP_PORT'' = Some ''8080'' \<and> ev ''STUDIO_PORT'' = None \<longrightarrow>
        getProjectPorts ev = \<lparr> kongPort = Num 8080, studioPort = Num 3000 \<rparr>)"
  by (simp add: getProjectPorts_def or_default_def parseInt10_8000 parseInt10_3000 parseInt10_8080)

theorem getProjectPorts_parses_with_defaults_witness:
  "getProjectPorts [''KONG_HTTP_PORT'' \<mapsto> ''8080''] = \<lparr> kongPort = Num 8080, studioPort = Num 3000 \<rparr> \<and>
   kongPort (getProjectPorts [''KONG_HTTP_PORT'' \<mapsto> ''8080'']) = parseInt10 ''8080'' \<and>
   studioPort (getProjectPorts [''KONG_HTTP_PORT'' \<mapsto> ''8080'']) = Num 3000 \<and>
   kongPort (getProjectPorts [''STUDIO_PORT'' \<mapsto> ''3001'']) = Num 8000 \<and>
   studioPort (getProjectPorts [''STUDIO_PORT'' \<mapsto> ''3001'']) = parseInt10 ''3001''"
  using getProjectPorts_parses_with_defaults [of "[''KONG_HTTP_PORT'' \<mapsto> ''8080'']"]
        getProjectPorts_parses_with_defaults [of "[''STUDIO_PORT'' \<mapsto> ''3001'']"]
  by (simp add: parseInt10_8080)



subsection \<open>The DNS verifier\<close>

text \<open>
  Claim C5. \<^verbatim>\<open>verifyDomainDNS\<close> never rejects; it gives \<^verbatim>\<open>true\<close> exactly when
  the query yields at least one address, and \<^verbatim>\<open>false\<close> whenever the query fails,
  whatever the error.
\<close>

theorem verifyDomainDNS_total_and_exact:
  "(\<exists>b. verifyDomainDNS d name = Inr b) \<and>
   (verifyDomainDNS d name = Inr True \<longleftrightarrow>
      (\<exists>addresses. resolve4 d name = Inr addresses \<and> addresses \<noteq> [])) \<and>
   (\<forall>err. resolve4 d name = Inl err \<longrightarrow> verifyDomainDNS d name = Inr False)"
  by (auto simp: verifyDomainDNS_def split: sum.splits)

theorem verifyDomainDNS_total_and_exact_witness:
  "verifyDomainDNS \<lparr> resolve4 = (\<lambda>n. Inl ETIMEOUT), resolve6 = (\<lambda>n. Inl ETIMEOUT) \<rparr> ''api.demo.test''
     = Inr False"
  using verifyDomainDNS_total_and_exact
    [of "\<lparr> resolve4 = (\<lambda>n. Inl ETIMEOUT), resolve6 = (\<lambda>n. Inl ETIMEOUT) \<rparr>" "''api.demo.test''"]
  by simp

text \<open>
  Claim C10. Only the A query is read: the answer to the AAAA query does not change
  the result, and a name whose A query fails or is empty while its AAAA query yields
  addresses is reported as not verified.
\<close>

theorem verifyDomainDNS_ignores_AAAA:
  "verifyDomainDNS (d\<lparr> resolve6 := r6 \<rparr>) name = verifyDomainDNS d name \<and>
   ((\<exists>err. resolve4 d name = Inl err) \<or> resolve4 d name = Inr [] \<longrightarrow>
      (\<exists>a as. resolve6 d name = Inr (a # as)) \<longrightarrow> verifyDomainDNS d name = Inr False)"
  by (auto simp: verifyDomainDNS_def)

theorem verifyDomainDNS_ignores_AAAA_witness:
  "verifyDomainDNS \<lparr> resolve4 = (\<lambda>n. Inl ENODATA), resolve6 = (\<lambda>n. Inr [''2001:db8::1'']) \<rparr>
     ''v6.demo.test'' = Inr False"
  using verifyDomainDNS_ignores_AAAA
    [where d = "\<lparr> resolve4 = (\<lambda>n. Inl ENODATA), resolve6 = (\<lambda>n. Inr [''2001:db8::1'']) \<rparr>"
       and name = "''v6.demo.test''"]
  by simp

subsection \<open>The domain pattern and the words it matches\<close>

lemma nullable_lang: "nullable r \<longleftrightarrow> [] \<in> lang r"
  by (induction r) (auto intro: star.star_nil)

lemma star_cons_split:
  assumes "x \<in> star A" and "x = c # w"
  shows "\<exists>u v. w = u @ v \<and> c # u \<in> A \<and> v \<in> star A"
  using assms
proof (induction arbitrary: w rule: star.induct)
  case star_nil
  then show ?case by simp
next
  case (star_step u v)
  show ?case
  proof (cases u)
    case Nil
    with star_step show ?thesis by simp
  next
    case (Cons a u')
    with star_step.prems have "a = c" and "w = u' @ v" by simp_all
    with Cons star_step.hyps show ?thesis by blast
  qed
qed

lemma star_cons_iff:
  "c # w \<in> star A \<longleftrightarrow> (\<exists>u v. w = u @ v \<and> c # u \<in> A \<and> v \<in> star A)"
proof
  assume "c # w \<in> star A"
  then show "\<exists>u v. w = u @ v \<and> c # u \<in> A \<and> v \<in> star A"
    by (rule star_cons_split) simp
next
  assume "\<exists>u v. w = u @ v \<and> c # u \<in> A \<and> v \<in> star A"
  then obtain u v where "w = u @ v" "c # u \<in> A" "v \<in> star A" by blast
  then show "c # w \<in> star A"
    using star.star_step [of "c # u" A v] by simp
qed

lemma lang_deriv: "lang (deriv c r) = {w. c # w \<in> lang r}"
proof (induction r)
  case (Seq r1 r2)
  then show ?case
    by (auto simp: nullable_lang Cons_eq_append_conv)
next
  case (Star r)
  then show ?case
    by (auto simp: star_cons_iff)
qed auto

lemma regex_test_lang: "regex_test r s \<longleftrightarrow> s \<in> lang r"
  by (induction s arbitrary: r) (simp_all add: nullable_lang lang_deriv)

lemma star_of_class: "w \<in> star {[c] | c. P c} \<longleftrightarrow> (\<forall>c \<in> set w. P c)"
proof
  assume "w \<in> star {[c] | c. P c}"
  then show "\<forall>c \<in> set w. P c"
    by (induction rule: star.induct) auto
next
  assume "\<forall>c \<in> set w. P c"
  then show "w \<in> star {[c] | c. P c}"
  proof (induction w)
    case Nil
    show ?case by (rule star.star_nil)
  next
    case (Cons a w)
    then have "[a] \<in> {[c] | c. P c}" and "w \<in> star {[c] | c. P c}" by auto
    then have "[a] @ w \<in> star {[c] | c. P c}" by (rule star.star_step)
    then show ?case by simp
  qed
qed

lemma in_class_alpha: "in_class alpha_class c \<longleftrightarrow> is_alpha c"
  by (auto simp: in_class_def alpha_class_def in_range_def is_alpha_def)

lemma in_class_alnum: "in_class alnum_class c \<longleftrightarrow> is_alnum c"
  by (auto simp: in_class_def alnum_class_def in_range_def is_alnum_def is_alpha_def is_digit_def)

lemma in_range_single: "in_range (d, d) c \<longleftrightarrow> c = d"
  by (auto simp: in_range_def)

lemma in_class_body: "in_class body_class c \<longleftrightarrow> is_interior c"
proof -
  have "in_class body_class c \<longleftrightarrow>
        in_class alnum_class c \<or> in_range (CHR ''-'', CHR ''-'') c \<or>
        in_range (CHR ''_'', CHR ''_'') c \<or> in_range (CHR ''.'', CHR ''.'') c"
    by (auto simp: in_class_def body_class_def alnum_class_def)
  then show ?thesis
    by (simp only: in_range_single in_class_alnum is_interior_def)
qed

lemma in_class_dot: "in_class [(CHR ''.'', CHR ''.'')] c \<longleftrightarrow> c = CHR ''.''"
  by (simp add: in_class_def in_range_single)

lemma lang_Seq_Class:
  "s \<in> lang (Seq (Class rs) r) \<longleftrightarrow> (\<exists>c t. s = c # t \<and> in_class rs c \<and> t \<in> lang r)"
proof
  assume "s \<in> lang (Seq (Class rs) r)"
  then show "\<exists>c t. s = c # t \<and> in_class rs c \<and> t \<in> lang r" by auto
next
  assume "\<exists>c t. s = c # t \<and> in_class rs c \<and> t \<in> lang r"
  then obtain c t where "s = [c] @ t" "in_class rs c" "t \<in> lang r" by auto
  then show "s \<in> lang (Seq (Class rs) r)" unfolding lang.simps by blast
qed

lemma lang_Star_Class: "s \<in> lang (Star (Class rs)) \<longleftrightarrow> (\<forall>c \<in> set s. in_class rs c)"
  by (simp add: star_of_class)

lemma lang_Seq_Star_Class:
  "s \<in> lang (Seq (Star (Class rs)) r) \<longleftrightarrow>
     (\<exists>mid t. s = mid @ t \<and> (\<forall>x \<in> set mid. in_class rs x) \<and> t \<in> lang r)"
  by (simp add: star_of_class)

lemma lang_SeqI: "u \<in> lang r \<Longrightarrow> v \<in> lang s \<Longrightarrow> u @ v \<in> lang (Seq r s)"
  by auto

lemma lang_ClassI: "in_class rs c \<Longrightarrow> [c] \<in> lang (Class rs)"
  by simp

text \<open>The words of the domain pattern, read off its structure.\<close>

lemma lang_domainRegex:
  "s \<in> lang domainRegex \<longleftrightarrow>
     (\<exists>c mid a b tl. s = c # mid @ CHR ''.'' # a # b # tl \<and> is_alnum c \<and>
        (\<forall>x \<in> set mid. is_interior x) \<and> is_alpha a \<and> is_alpha b \<and> (\<forall>x \<in> set tl. is_alpha x))"
  (is "?L \<longleftrightarrow> ?R")
proof
  assume ?L
  then have "\<exists>c t. s = c # t \<and> in_class alnum_class c \<and> t \<in> lang (Seq (Star (Class body_class))
         (Seq (Class [(CHR ''.'', CHR ''.'')])
           (Seq (Class alpha_class) (Seq (Class alpha_class) (Star (Class alpha_class))))))"
    unfolding domainRegex_def by (rule iffD1 [OF lang_Seq_Class])
  then obtain c t where 1: "s = c # t" "in_class alnum_class c" and
    t: "t \<in> lang (Seq (Star (Class body_class))
         (Seq (Class [(CHR ''.'', CHR ''.'')])
           (Seq (Class alpha_class) (Seq (Class alpha_class) (Star (Class alpha_class))))))"
    by (elim exE conjE)
  from t have "\<exists>mid t1. t = mid @ t1 \<and> (\<forall>x \<in> set mid. in_class body_class x) \<and>
      t1 \<in> lang (Seq (Class [(CHR ''.'', CHR ''.'')])
           (Seq (Class alpha_class) (Seq (Class alpha_class) (Star (Class alpha_class)))))"
    by (rule iffD1 [OF lang_Seq_Star_Class])
  then obtain mid t1 where 2: "t = mid @ t1" "\<forall>x \<in> set mid. in_class body_class x" and
    t1: "t1 \<in> lang (Seq (Class [(CHR ''.'', CHR ''.'')])
           (Seq (Class alpha_class) (Seq (Class alpha_class) (Star (Class alpha_class)))))"
    by (elim exE conjE)
  from t1 have "\<exists>d t2. t1 = d # t2 \<and> in_class [(CHR ''.'', CHR ''.'')] d \<and>
      t2 \<in> lang (Seq (Class alpha_class) (Seq (Class alpha_class) (Star (Class alpha_class))))"
    by (rule iffD1 [OF lang_Seq_Class])
  then obtain d t2 where 3: "t1 = d # t2" "in_class [(CHR ''.'', CHR ''.'')] d" and
    t2: "t2 \<in> lang (Seq (Class alpha_class) (Seq (Class alpha_class) (Star (Class alpha_class))))"
    by (elim exE conjE)
  from t2 have "\<exists>a t3. t2 = a # t3 \<and> in_class alpha_class a \<and>
      t3 \<in> lang (Seq (Class alpha_class) (Star (Class alpha_class)))"
    by (rule iffD1 [OF lang_Seq_Class])
  then obtain a t3 where 4: "t2 = a # t3" "in_class alpha_class a" and
    t3: "t3 \<in> lang (Seq (Class alpha_class) (Star (Class alpha_class)))"
    by (elim exE conjE)
  from t3 have "\<exists>b tl. t3 = b # tl \<and> in_class alpha_class b \<and> tl \<in> lang (Star (Class alpha_class))"
    by (rule iffD1 [OF lang_Seq_Class])
  then obtain b tl where 5: "t3 = b # tl" "in_class alpha_class b" and
    tl: "tl \<in> lang (Star (Class alpha_class))"
    by (elim exE conjE)
  from tl have 6: "\<forall>x \<in> set tl. in_class alpha_class x"
    by (rule iffD1 [OF lang_Star_Class])
  have "s = c # mid @ CHR ''.'' # a # b # tl \<and> is_alnum c \<and>
        (\<forall>x \<in> set mid. is_interior x) \<and> is_alpha a \<and> is_alpha b \<and> (\<forall>x \<in> set tl. is_alpha x)"
    using 1 2 3 4 5 6
    by (simp add: in_class_alpha in_class_alnum in_class_body in_class_dot)
  then show ?R by (intro exI)
next
  assume ?R
  then obtain c mid a b tl where s: "s = c # mid @ CHR ''.'' # a # b # tl"
    and c: "is_alnum c" and mid: "\<forall>x \<in> set mid. is_interior x"
    and a: "is_alpha a" and b: "is_alpha b" and tl: "\<forall>x \<in> set tl. is_alpha x"
    by (elim exE conjE)
  have "[c] @ (mid @ ([CHR ''.''] @ ([a] @ ([b] @ tl)))) \<in> lang domainRegex"
    unfolding domainRegex_def
    by (intro lang_SeqI lang_ClassI)
      (simp_all add: lang_Star_Class in_class_alpha in_class_alnum in_class_body in_class_dot
         c mid a b tl del: lang.simps)
  then show ?L by (simp add: s)
qed

lemma takeWhile_until: "\<forall>x \<in> set xs. P x \<Longrightarrow> \<not> P y \<Longrightarrow> takeWhile P (xs @ y # ys) = xs"
  by (induction xs) auto

lemma dropWhile_until: "\<forall>x \<in> set xs. P x \<Longrightarrow> \<not> P y \<Longrightarrow> dropWhile P (xs @ y # ys) = y # ys"
  by (induction xs) auto

lemma not_alpha_dot: "\<not> is_alpha (CHR ''.'')"
  by (simp add: is_alpha_def)

lemma spec_domain_format_iff:
  "spec_domain_format s \<longleftrightarrow>
     (\<exists>c mid a b tl. s = c # mid @ CHR ''.'' # a # b # tl \<and> is_alnum c \<and>
        (\<forall>x \<in> set mid. is_interior x) \<and> is_alpha a \<and> is_alpha b \<and> (\<forall>x \<in> set tl. is_alpha x))"
  (is "?L \<longleftrightarrow> ?R")
proof
  assume ?L
  then obtain c rest where s: "s = c # rest" and c: "is_alnum c"
    by (cases s) (auto simp: spec_domain_format_def)
  define label where "label = takeWhile is_alpha (rev rest)"
  define before where "before = dropWhile is_alpha (rev rest)"
  from \<open>?L\<close> have len: "2 \<le> length label"
    and bef: "case before of [] \<Rightarrow> False | d # interior \<Rightarrow> d = CHR ''.'' \<and> list_all is_interior interior"
    by (simp_all add: s spec_domain_format_def Let_def label_def before_def)
  from bef obtain interior where before: "before = CHR ''.'' # interior"
    and interior: "list_all is_interior interior"
    by (cases before) auto
  have "rev rest = label @ before"
    by (simp add: label_def before_def)
  then have "rest = rev before @ rev label"
    by (metis rev_append rev_rev_ident)
  then have rest: "rest = rev interior @ CHR ''.'' # rev label"
    by (simp add: before)
  have alpha: "\<forall>x \<in> set label. is_alpha x"
    unfolding label_def by (auto dest: set_takeWhileD)
  from len obtain a b tl where lab: "rev label = a # b # tl"
    by (cases "rev label"; cases "tl (rev label)") (auto simp: Suc_le_eq dest: arg_cong [where f = length])
  then have "set label = set (a # b # tl)"
    by (metis set_rev)
  with alpha have "is_alpha a" "is_alpha b" "\<forall>x \<in> set tl. is_alpha x"
    by auto
  moreover have "\<forall>x \<in> set (rev interior). is_interior x"
    using interior by (simp add: list_all_iff)
  moreover have "s = c # rev interior @ CHR ''.'' # a # b # tl"
    by (simp add: s rest lab)
  ultimately show ?R
    using c by blast
next
  assume ?R
  then obtain c mid a b tl where s: "s = c # mid @ CHR ''.'' # a # b # tl"
    and c: "is_alnum c" and mid: "\<forall>x \<in> set mid. is_interior x"
    and a: "is_alpha a" and b: "is_alpha b" and tl: "\<forall>x \<in> set tl. is_alpha x"
    by (elim exE conjE)
  have rv: "rev (mid @ CHR ''.'' # a # b # tl) = rev (a # b # tl) @ CHR ''.'' # rev mid"
    by simp
  have all: "\<forall>x \<in> set (rev (a # b # tl)). is_alpha x"
    using a b tl by simp
  have tw: "takeWhile is_alpha (rev (a # b # tl) @ CHR ''.'' # rev mid) = rev (a # b # tl)"
    using all not_alpha_dot by (rule takeWhile_until)
  have dw: "dropWhile is_alpha (rev (a # b # tl) @ CHR ''.'' # rev mid) = CHR ''.'' # rev mid"
    using all not_alpha_dot by (rule dropWhile_until)
  show ?L
    unfolding spec_domain_format_def s list.case Let_def rv tw dw
    using c mid by (simp add: list_all_iff)
qed

lemma domainRegex_test_iff_spec: "domainRegex_test s \<longleftrightarrow> spec_domain_format s"
  by (simp only: domainRegex_test_def regex_test_lang lang_domainRegex spec_domain_format_iff)

subsection \<open>The update of a project's domains\<close>

lemma verifyDomainDNS_Inr: "verifyDomainDNS r d = Inr (verifyDomainDNS r d = Inr True)"
  by (auto simp: verifyDomainDNS_def split: sum.splits)

lemma find_update_where:
  assumes "find (\<lambda>q. project_id q = pid) ps = Some p" and "\<And>q. project_id (f q) = project_id q"
  shows "find (\<lambda>q. project_id q = pid) (update_where pid f ps) = Some (f p)"
  using assms by (induction ps) (auto split: if_splits)

lemma findUnique_update_where:
  assumes "findUnique pid ps = Some p" and "\<And>q. project_id (f q) = project_id q"
  shows "findUnique pid (update_where pid f ps) = Some (f p)"
  using assms unfolding findUnique_def by (rule find_update_where)

lemma findUnique_id: "findUnique pid ps = Some p \<Longrightarrow> project_id p = pid"
  unfolding findUnique_def by (auto simp: find_Some_iff)

lemma updateData_id: "project_id (updateData dfield sfield a s q) = project_id q"
  by (simp add: updateData_def Let_def)

lemma updateData_slug: "slug (updateData dfield sfield a s q) = slug q"
  by (simp add: updateData_def Let_def)

text \<open>The state and the response of an update that passes every check.\<close>

lemma PUT_project_domain_accepted:
  assumes auth: "authenticate w tok = None"
    and fmt_api: "truthy dfield \<Longrightarrow> domainRegex_test (str_of dfield)"
    and fmt_studio: "truthy sfield \<Longrightarrow> domainRegex_test (str_of sfield)"
    and some: "truthy dfield \<or> truthy sfield"
    and found: "findUnique pid (projects st) = Some p"
    and free_api: "truthy dfield \<Longrightarrow>
        findFirst (\<lambda>q. domain q = Some (str_of dfield) \<and> project_id q \<noteq> pid) (projects st) = None"
    and free_studio: "truthy sfield \<Longrightarrow>
        findFirst (\<lambda>q. studioDomain q = Some (str_of sfield) \<and> project_id q \<noteq> pid) (projects st) = None"
    and a: "a = (truthy dfield \<and> verifyDomainDNS (resolver w) (str_of dfield) = Inr True)"
    and s: "s = (truthy sfield \<and> verifyDomainDNS (resolver w) (str_of sfield) = Inr True)"
    and up: "up = updateData dfield sfield a s p"
    and fd: "fd = or_default (if truthy dfield then Some (str_of dfield) else domain up) []"
    and fs: "fs = or_default (if truthy sfield then Some (str_of sfield) else studioDomain up) []"
  shows "PUT_project_domain w tok pid dfield sfield st =
     (DomainSaved (domain up) (domainVerified up) (studioDomain up) (studioDomainVerified up)
        (responseMessage dfield sfield a s),
      st\<lparr> projects := update_where pid (updateData dfield sfield a s) (projects st),
           files := (if fd \<noteq> [] \<or> fs \<noteq> []
                     then generateProjectTraefikConfig w (slug p) fd (Some fs)
                            (kongPort (getProjectPorts (envVarsMap (envVars p))))
                            (studioPort (getProjectPorts (envVarsMap (envVars p)))) (files st)
                     else files st) \<rparr>)"
proof -
  have va: "(if truthy dfield then verifyDomainDNS (resolver w) (str_of dfield) else Inr False) = Inr a"
    using verifyDomainDNS_Inr [of "resolver w" "str_of dfield"] by (simp add: a)
  have vs: "(if truthy sfield then verifyDomainDNS (resolver w) (str_of sfield) else Inr False) = Inr s"
    using verifyDomainDNS_Inr [of "resolver w" "str_of sfield"] by (simp add: s)
  have g1: "\<not> (truthy dfield \<and> \<not> domainRegex_test (str_of dfield))" using fmt_api by blast
  have g2: "\<not> (truthy sfield \<and> \<not> domainRegex_test (str_of sfield))" using fmt_studio by blast
  have g3: "\<not> (\<not> truthy dfield \<and> \<not> truthy sfield)" using some by blast
  have g4: "\<not> (truthy dfield \<and>
        findFirst (\<lambda>q. domain q = Some (str_of dfield) \<and> project_id q \<noteq> pid) (projects st) \<noteq> None)"
    using free_api by auto
  have g5: "\<not> (truthy sfield \<and>
        findFirst (\<lambda>q. studioDomain q = Some (str_of sfield) \<and> project_id q \<noteq> pid) (projects st) \<noteq> None)"
    using free_studio by auto
  have upd: "project_update pid (updateData dfield sfield a s) (projects st) =
      Inr (up, update_where pid (updateData dfield sfield a s) (projects st))"
    by (simp add: project_update_def found up)
  show ?thesis
    unfolding PUT_project_domain_def auth option.case if_not_P [OF g1] if_not_P [OF g2]
      if_not_P [OF g3] found if_not_P [OF g4] if_not_P [OF g5] va vs sum.case upd prod.case Let_def
    by (simp add: fd fs)
qed

subsection \<open>The concrete installation\<close>

lemma demo_path: "projectConfigPath demo_world ''demo'' = demo_yml"
  by code_simp

lemma demo_auth: "authenticate demo_world (Some ''session-1'') = None"
  by (simp add: authenticate_def demo_world_def)

lemma demo_find: "findUnique ''B'' (projects demo_state) = Some project_demo"
  by (simp add: findUnique_def demo_state_def project_alpha_def project_demo_def)

lemmas regex_eval = domainRegex_test_def domainRegex_def alnum_class_def body_class_def
  alpha_class_def in_class_def in_range_def

lemma demo_formats:
  "domainRegex_test ''studio.alpha.test''" "domainRegex_test ''api.alpha.test''"
  "domainRegex_test ''api.demo.test''" "domainRegex_test ''studio.demo.test''"
  "\<not> domainRegex_test ''-bad.com''" "\<not> domainRegex_test ''not a domain''"
  by (simp_all add: regex_eval)

lemma demo_verify: "verifyDomainDNS (resolver demo_world) name = Inr False"
  by (simp add: verifyDomainDNS_def demo_world_def demo_dns_def)

lemma demo_ports:
  "getProjectPorts (envVarsMap (envVars project_demo)) = \<lparr> kongPort = Num 8080, studioPort = Num 3000 \<rparr>"
  by (simp add: project_demo_def envVarsMap_def getProjectPorts_def or_default_def
      parseInt10_8080 parseInt10_3000)

subsection \<open>Removing the domains of a project\<close>

lemma removeProjectTraefikConfig_unlinks:
  "removeProjectTraefikConfig w projectSlug fs = fs(projectConfigPath w projectSlug := None)"
  by (auto simp: removeProjectTraefikConfig_def unlink_def split: option.splits)

text \<open>
  Claim C1, as amended. Removing the domains of a project unlinks its routing file:
  for every slug, \<^verbatim>\<open>removeProjectTraefikConfig\<close> leaves no file at
  \<^verbatim>\<open><dynamic-config-dir>/<slug>.yml\<close> and writes no placeholder; the
  \<^verbatim>\<open>DELETE\<close> handler of an existing project answers with success, no file is left
  at that path, and every other file is as before.
\<close>

theorem project_domain_removal_unlinks_file:
  assumes "authenticate w tok = None" and "findUnique pid (projects st) = Some p"
  shows "removeProjectTraefikConfig w projectSlug fs (projectConfigPath w projectSlug) = None \<and>
         fst (DELETE_project_domain w tok pid st) = Removed ''Domains removed successfully'' \<and>
         files (snd (DELETE_project_domain w tok pid st)) (projectConfigPath w (slug p)) = None \<and>
         (\<forall>path. path \<noteq> projectConfigPath w (slug p) \<longrightarrow>
            files (snd (DELETE_project_domain w tok pid st)) path = files st path)"
  using assms
  by (simp add: DELETE_project_domain_def project_update_def removeProjectTraefikConfig_unlinks)

theorem project_domain_removal_unlinks_file_witness:
  "fst (DELETE_project_domain demo_world (Some ''session-1'') ''B'' demo_state)
     = Removed ''Domains removed successfully'' \<and>
   files (snd (DELETE_project_domain demo_world (Some ''session-1'') ''B'' demo_state))
     (projectConfigPath demo_world (slug project_demo)) = None \<and>
   files (snd (DELETE_project_domain demo_world (Some ''session-1'') ''B'' demo_state))
     ''/etc/supapanel/traefik/dynamic/panel.yml'' = files demo_state ''/etc/supapanel/traefik/dynamic/panel.yml''"
proof -
  have "slug project_demo = ''demo''" by (simp add: project_demo_def)
  then have "''/etc/supapanel/traefik/dynamic/panel.yml'' \<noteq> projectConfigPath demo_world (slug project_demo)"
    by (simp add: demo_path demo_yml_def)
  then show ?thesis
    using project_domain_removal_unlinks_file [OF demo_auth demo_find] by simp
qed

text \<open>
  The claim as stated fails: in the concrete installation the routing file of
  \<^verbatim>\<open>demo\<close> exists before the removal and does not exist after it.
\<close>

theorem project_domain_removal_placeholder_counterexample:
  "files demo_state demo_yml \<noteq> None \<and>
   fst (DELETE_project_domain demo_world (Some ''session-1'') ''B'' demo_state)
     = Removed ''Domains removed successfully'' \<and>
   files (snd (DELETE_project_domain demo_world (Some ''session-1'') ''B'' demo_state)) demo_yml = None"
proof -
  have "slug project_demo = ''demo''" by (simp add: project_demo_def)
  then show ?thesis
    by (simp add: DELETE_project_domain_def demo_auth demo_find project_update_def
        removeProjectTraefikConfig_unlinks demo_path) (simp add: demo_state_def)
qed

subsection \<open>Uniqueness of a domain\<close>

lemma find_not_None: "x \<in> set xs \<Longrightarrow> P x \<Longrightarrow> find P xs \<noteq> None"
  by (auto simp: find_None_iff)

text \<open>
  Within one attribute the check holds. For two distinct projects A and B, an
  authenticated update of B whose supplied domains are well formed, and that sets B's
  API domain to the API domain of A or B's Studio domain to the Studio domain of A, is
  answered with the conflict status 409, and the state (database and files) is
  unchanged.
\<close>

lemma domain_conflict_rejected_before_side_effects:
  assumes "authenticate w tok = None"
    and "truthy dfield \<longrightarrow> domainRegex_test (str_of dfield)"
    and "truthy sfield \<longrightarrow> domainRegex_test (str_of sfield)"
    and "findUnique b (projects st) = Some pb"
    and "pa \<in> set (projects st)" and "project_id pa \<noteq> b"
    and "(truthy dfield \<and> domain pa = Some (str_of dfield)) \<or>
         (truthy sfield \<and> studioDomain pa = Some (str_of sfield))"
  shows "PUT_project_domain w tok b dfield sfield st = (ErrorResponse 409 ''API domain is already in use'', st) \<or>
         PUT_project_domain w tok b dfield sfield st = (ErrorResponse 409 ''Studio domain is already in use'', st)"
proof -
  have some: "\<not> (\<not> truthy dfield \<and> \<not> truthy sfield)"
    using assms(7) by blast
  have hit: "(truthy dfield \<and>
        findFirst (\<lambda>q. domain q = Some (str_of dfield) \<and> project_id q \<noteq> b) (projects st) \<noteq> None) \<or>
      (truthy sfield \<and>
        findFirst (\<lambda>q. studioDomain q = Some (str_of sfield) \<and> project_id q \<noteq> b) (projects st) \<noteq> None)"
  proof -
    have "find (\<lambda>q. domain q = Some (str_of dfield) \<and> project_id q \<noteq> b) (projects st) \<noteq> None"
      if "domain pa = Some (str_of dfield)"
      using assms(5) by (rule find_not_None) (simp add: that assms(6))
    moreover have "find (\<lambda>q. studioDomain q = Some (str_of sfield) \<and> project_id q \<noteq> b) (projects st) \<noteq> None"
      if "studioDomain pa = Some (str_of sfield)"
      using assms(5) by (rule find_not_None) (simp add: that assms(6))
    ultimately show ?thesis
      using assms(7) unfolding findFirst_def by blast
  qed
  show ?thesis
    using assms(1,2,3,4) some hit
    by (auto simp: PUT_project_domain_def)
qed

lemma domain_conflict_rejected_before_side_effects_example:
  "PUT_project_domain demo_world (Some ''session-1'') ''B'' (Str ''api.alpha.test'') Undefined demo_state
     = (ErrorResponse 409 ''API domain is already in use'', demo_state) \<or>
   PUT_project_domain demo_world (Some ''session-1'') ''B'' (Str ''api.alpha.test'') Undefined demo_state
     = (ErrorResponse 409 ''Studio domain is already in use'', demo_state)"
proof -
  have "project_alpha \<in> set (projects demo_state)" "project_id project_alpha \<noteq> ''B''"
    "domain project_alpha = Some ''api.alpha.test''"
    by (simp_all add: demo_state_def project_alpha_def)
  then show ?thesis
    using domain_conflict_rejected_before_side_effects
      [of demo_world "Some ''session-1''" "Str ''api.alpha.test''" Undefined "''B''" demo_state
          project_demo project_alpha]
    by (simp add: demo_auth demo_find demo_formats)
qed

lemma demo_slug: "slug project_demo = ''demo''"
  by (simp add: project_demo_def)

lemma demo_now: "now demo_world = demo_date"
  by (simp add: demo_world_def)

lemma demo_free_api:
  "findFirst (\<lambda>q. domain q = Some ''studio.alpha.test'' \<and> project_id q \<noteq> ''B'') (projects demo_state) = None"
  by (simp add: findFirst_def demo_state_def project_alpha_def project_demo_def)

text \<open>
  Claim C2. A domain that another project holds in either attribute is to be refused
  with a conflict before any side effect. The handler compares a supplied API domain
  with the API domains of the other projects only, and a supplied Studio domain with
  their Studio domains only. In the concrete installation, setting the API domain of
  \<^verbatim>\<open>demo\<close> to the Studio domain of \<^verbatim>\<open>alpha\<close> is answered with success: the row
  of \<^verbatim>\<open>demo\<close> is changed and its routing file is rewritten for a host that
  \<^verbatim>\<open>alpha\<close> routes already.
\<close>

theorem cross_attribute_domain_accepted:
  "PUT_project_domain demo_world (Some ''session-1'') ''B'' (Str ''studio.alpha.test'') Undefined demo_state =
     (DomainSaved (Some ''studio.alpha.test'') False None False ''API domain configured (DNS pending)'',
      demo_state\<lparr> projects := [project_alpha, project_demo\<lparr> domain := Some ''studio.alpha.test'' \<rparr>],
                  files := [demo_yml \<mapsto> traefikConfig demo_date ''demo'' ''studio.alpha.test'' (Some [])
                                            (Num 8080) (Num 3000)] \<rparr>) \<and>
   studioDomain project_alpha = Some ''studio.alpha.test'' \<and>
   project_alpha \<in> set (projects demo_state) \<and> project_id project_alpha \<noteq> ''B''"
proof -
  have up: "updateData (Str ''studio.alpha.test'') Undefined False False project_demo =
      project_demo\<lparr> domain := Some ''studio.alpha.test'' \<rparr>"
    by (simp add: updateData_def project_demo_def)
  have tbl: "update_where ''B'' (updateData (Str ''studio.alpha.test'') Undefined False False)
      (projects demo_state) = [project_alpha, project_demo\<lparr> domain := Some ''studio.alpha.test'' \<rparr>]"
    by (simp add: demo_state_def up) (simp add: project_alpha_def project_demo_def)
  have "PUT_project_domain demo_world (Some ''session-1'') ''B'' (Str ''studio.alpha.test'') Undefined demo_state =
     (DomainSaved (Some ''studio.alpha.test'') False None False ''API domain configured (DNS pending)'',
      demo_state\<lparr> projects := [project_alpha, project_demo\<lparr> domain := Some ''studio.alpha.test'' \<rparr>],
                  files := [demo_yml \<mapsto> traefikConfig demo_date ''demo'' ''studio.alpha.test'' (Some [])
                                            (Num 8080) (Num 3000)] \<rparr>)"
    by (subst PUT_project_domain_accepted [OF demo_auth _ _ _ demo_find _ _ refl refl refl refl refl])
      (simp_all add: demo_formats demo_free_api demo_verify up tbl responseMessage_def
        or_default_def demo_ports generateProjectTraefikConfig_def writeFile_def demo_slug demo_path
        demo_now, simp_all add: demo_state_def project_demo_def)
  then show ?thesis
    by (simp add: demo_state_def project_alpha_def)
qed

text \<open>The response at this input is the success body, not a conflict.\<close>

theorem cross_attribute_domain_accepted_witness:
  "fst (PUT_project_domain demo_world (Some ''session-1'') ''B'' (Str ''studio.alpha.test'') Undefined
          demo_state) =
     DomainSaved (Some ''studio.alpha.test'') False None False ''API domain configured (DNS pending)''"
  using cross_attribute_domain_accepted by simp

subsection \<open>The format check of the handlers\<close>

text \<open>
  Claim C6, as amended. The pattern accepts exactly the strings of the format of the
  specification. In an authenticated request, a non-empty string outside the format is
  rejected with status 400 and a format message, with the state unchanged, as the API
  domain, as the panel domain, and as the Studio domain (once the API field passes);
  a string of the format is never answered with the format message of its field.
  The empty string is not tested against the pattern.
\<close>

theorem domain_format_contract:
  "(domainRegex_test s \<longleftrightarrow> spec_domain_format s) \<and>
   (authenticate w tok = None \<longrightarrow>
      (s \<noteq> [] \<and> \<not> domainRegex_test s \<longrightarrow>
         PUT_project_domain w tok pid (Str s) sfield st =
           (ErrorResponse 400 ''Invalid API domain format'', st) \<and>
         PUT_panel_domain w tok (Str s) st = (ErrorResponse 400 ''Invalid domain format'', st) \<and>
         ((truthy dfield \<longrightarrow> domainRegex_test (str_of dfield)) \<longrightarrow>
            PUT_project_domain w tok pid dfield (Str s) st =
              (ErrorResponse 400 ''Invalid Studio domain format'', st))) \<and>
      (domainRegex_test s \<longrightarrow>
         fst (PUT_project_domain w tok pid (Str s) sfield st)
           \<noteq> ErrorResponse 400 ''Invalid API domain format'' \<and>
         fst (PUT_project_domain w tok pid dfield (Str s) st)
           \<noteq> ErrorResponse 400 ''Invalid Studio domain format'' \<and>
         fst (PUT_panel_domain w tok (Str s) st) \<noteq> ErrorResponse 400 ''Invalid domain format''))"
proof (intro conjI impI)
  show "domainRegex_test s \<longleftrightarrow> spec_domain_format s"
    by (rule domainRegex_test_iff_spec)
next
  assume "authenticate w tok = None" and "s \<noteq> [] \<and> \<not> domainRegex_test s"
  then show "PUT_project_domain w tok pid (Str s) sfield st =
      (ErrorResponse 400 ''Invalid API domain format'', st)"
    by (simp add: PUT_project_domain_def)
next
  assume "authenticate w tok = None" and "s \<noteq> [] \<and> \<not> domainRegex_test s"
  then show "PUT_panel_domain w tok (Str s) st = (ErrorResponse 400 ''Invalid domain format'', st)"
    by (simp add: PUT_panel_domain_def)
next
  assume "authenticate w tok = None" and "s \<noteq> [] \<and> \<not> domainRegex_test s"
    and "truthy dfield \<longrightarrow> domainRegex_test (str_of dfield)"
  then show "PUT_project_domain w tok pid dfield (Str s) st =
      (ErrorResponse 400 ''Invalid Studio domain format'', st)"
    by (auto simp: PUT_project_domain_def)
next
  assume "authenticate w tok = None" and "domainRegex_test s"
  then show "fst (PUT_project_domain w tok pid (Str s) sfield st)
      \<noteq> ErrorResponse 400 ''Invalid API domain format''"
    by (auto simp: PUT_project_domain_def Let_def split: option.splits sum.splits prod.splits)
next
  assume "authenticate w tok = None" and "domainRegex_test s"
  then show "fst (PUT_project_domain w tok pid dfield (Str s) st)
      \<noteq> ErrorResponse 400 ''Invalid Studio domain format''"
    by (auto simp: PUT_project_domain_def Let_def split: option.splits sum.splits prod.splits)
next
  assume "authenticate w tok = None" and "domainRegex_test s"
  then show "fst (PUT_panel_domain w tok (Str s) st) \<noteq> ErrorResponse 400 ''Invalid domain format''"
    by (auto simp: PUT_panel_domain_def split: sum.splits)
qed

theorem domain_format_contract_witness:
  "PUT_project_domain demo_world (Some ''session-1'') ''B'' (Str ''-bad.com'') Undefined demo_state =
     (ErrorResponse 400 ''Invalid API domain format'', demo_state) \<and>
   PUT_panel_domain demo_world (Some ''session-1'') (Str ''-bad.com'') demo_state =
     (ErrorResponse 400 ''Invalid domain format'', demo_state) \<and>
   PUT_project_domain demo_world (Some ''session-1'') ''B'' Undefined (Str ''-bad.com'') demo_state =
     (ErrorResponse 400 ''Invalid Studio domain format'', demo_state) \<and>
   \<not> spec_domain_format ''-bad.com''"
  using domain_format_contract
    [of "''-bad.com''" demo_world "Some ''session-1''" "''B''" Undefined demo_state Undefined]
  by (simp add: demo_auth demo_formats)

lemma demo_free_studio:
  "findFirst (\<lambda>q. studioDomain q = Some ''studio.demo.test'' \<and> project_id q \<noteq> ''B'') (projects demo_state) = None"
  by (simp add: findFirst_def demo_state_def project_alpha_def project_demo_def)

text \<open>
  The claim as stated fails for the empty string: it does not match the pattern, and
  as the API domain beside a Studio domain it is not rejected; the update succeeds and
  clears the API domain.
\<close>

theorem empty_domain_not_a_format_error_counterexample:
  "\<not> domainRegex_test [] \<and>
   PUT_project_domain demo_world (Some ''session-1'') ''B'' (Str []) (Str ''studio.demo.test'') demo_state =
     (DomainSaved None False (Some ''studio.demo.test'') False ''Studio domain configured (DNS pending)'',
      demo_state\<lparr> projects := [project_alpha,
                     project_demo\<lparr> domain := None, studioDomain := Some ''studio.demo.test'' \<rparr>],
                  files := [demo_yml \<mapsto> traefikConfig demo_date ''demo'' [] (Some ''studio.demo.test'')
                                            (Num 8080) (Num 3000)] \<rparr>)"
proof -
  have up: "updateData (Str []) (Str ''studio.demo.test'') False False project_demo =
      project_demo\<lparr> domain := None, studioDomain := Some ''studio.demo.test'' \<rparr>"
    by (simp add: updateData_def project_demo_def)
  have tbl: "update_where ''B'' (updateData (Str []) (Str ''studio.demo.test'') False False)
      (projects demo_state) =
      [project_alpha, project_demo\<lparr> domain := None, studioDomain := Some ''studio.demo.test'' \<rparr>]"
    by (simp add: demo_state_def up) (simp add: project_alpha_def project_demo_def)
  have "PUT_project_domain demo_world (Some ''session-1'') ''B'' (Str []) (Str ''studio.demo.test'') demo_state =
     (DomainSaved None False (Some ''studio.demo.test'') False ''Studio domain configured (DNS pending)'',
      demo_state\<lparr> projects := [project_alpha,
                     project_demo\<lparr> domain := None, studioDomain := Some ''studio.demo.test'' \<rparr>],
                  files := [demo_yml \<mapsto> traefikConfig demo_date ''demo'' [] (Some ''studio.demo.test'')
                                            (Num 8080) (Num 3000)] \<rparr>)"
    by (subst PUT_project_domain_accepted [OF demo_auth _ _ _ demo_find _ _ refl refl refl refl refl])
      (simp_all add: demo_formats demo_free_studio demo_verify up tbl responseMessage_def
        or_default_def demo_ports generateProjectTraefikConfig_def writeFile_def demo_slug demo_path
        demo_now, simp_all add: demo_state_def project_demo_def)
  moreover have "\<not> domainRegex_test []"
    by (simp add: regex_eval)
  ultimately show ?thesis by simp
qed

subsection \<open>Numbers and dates print on one line\<close>

lemma show_nat_digits: "set (show_nat n) \<subseteq> {c. is_digit c}"
proof (induction n rule: show_nat.induct)
  case (1 n)
  have d: "is_digit (char_of (48 + k))" if "k < 10" for k :: nat
    using that by (simp add: is_digit_def)
  show ?case
  proof (cases "n < 10")
    case True
    then show ?thesis
      by (subst show_nat.simps) (simp add: d)
  next
    case False
    with 1 have "set (show_nat (n div 10)) \<subseteq> {c. is_digit c}" by simp
    moreover have "is_digit (char_of (48 + n mod 10))" by (rule d) simp
    ultimately show ?thesis
      using False by (subst show_nat.simps) simp
  qed
qed

lemma newline_not_digit: "\<not> is_digit (CHR 0x0A)"
  by (simp add: is_digit_def)

lemma show_nat_line: "CHR 0x0A \<notin> set (show_nat n)"
  using show_nat_digits [of n] newline_not_digit by auto

lemma show_number_line: "CHR 0x0A \<notin> set (show_number x)"
  by (cases x) (simp_all add: show_nat_line)

lemma pad_line: "CHR 0x0A \<notin> set (pad k n)"
  by (simp add: pad_def show_nat_line)

lemma toISOString_line: "CHR 0x0A \<notin> set (toISOString t)"
  by (simp add: toISOString_def pad_line)

subsection \<open>The lines of a rendered document\<close>

lemma split_on_nonempty: "split_on sep xs \<noteq> []"
  by (induction xs) (auto split: list.splits)

lemma split_on_sep_append:
  "split_on sep (xs @ sep # ys) = split_on sep xs @ split_on sep ys"
proof (induction xs)
  case Nil
  show ?case by simp
next
  case (Cons x xs)
  obtain l ls where "split_on sep xs = l # ls"
    using split_on_nonempty [of sep xs] by (cases "split_on sep xs") auto
  with Cons show ?case by simp
qed

lemma split_on_line: "sep \<notin> set xs \<Longrightarrow> split_on sep xs = [xs]"
  by (induction xs) auto

lemma lines_of_join_lines:
  "ls \<noteq> [] \<Longrightarrow> \<forall>l \<in> set ls. CHR 0x0A \<notin> set l \<Longrightarrow> lines_of (join_lines ls) = ls"
  unfolding lines_of_def join_lines_def
proof (induction "[CHR 0x0A]" ls rule: join_with.induct)
  case 1
  then show ?case by simp
next
  case (2 l)
  then show ?case by (simp add: split_on_line)
next
  case (3 l l2 ls)
  then show ?case by (simp add: split_on_sep_append split_on_line)
qed

lemma join_lines_append:
  "xs \<noteq> [] \<Longrightarrow> ys \<noteq> [] \<Longrightarrow> join_lines xs @ join_lines ([] # ys) = join_lines (xs @ ys)"
  unfolding join_lines_def
proof (induction "[CHR 0x0A]" xs rule: join_with.induct)
  case 1
  then show ?case by simp
next
  case (2 l)
  then show ?case by (cases ys) simp_all
next
  case (3 l l2 ls)
  then show ?case by simp
qed

text \<open>
  The lines of a line that carries two optional blocks, each block starting with an
  empty line.
\<close>

lemma lines_of_blocks:
  assumes h: "CHR 0x0A \<notin> set h"
    and A: "\<forall>l \<in> set A. CHR 0x0A \<notin> set l" and B: "\<forall>l \<in> set B. CHR 0x0A \<notin> set l"
    and ne: "A \<noteq> []" "B \<noteq> []"
  shows "lines_of (h @ (if c1 then join_lines ([] # A) else []) @ (if c2 then join_lines ([] # B) else []))
         = h # (if c1 then A else []) @ (if c2 then B else [])"
proof -
  have start: "lines_of (h @ join_lines ([] # X)) = h # X"
    if "X \<noteq> []" "\<forall>l \<in> set X. CHR 0x0A \<notin> set l" for X
  proof -
    have "h @ join_lines ([] # X) = join_lines (h # X)"
      using that(1) by (cases X) (simp_all add: join_lines_def)
    then show ?thesis
      using that h by (simp add: lines_of_join_lines)
  qed
  show ?thesis
  proof (cases c1; cases c2)
    assume "c1" "c2"
    moreover have "join_lines ([] # A) @ join_lines ([] # B) = join_lines ([] # A @ B)"
      using join_lines_append [of "[] # A" B] ne by simp
    ultimately show ?thesis
      using start [of "A @ B"] A B ne by auto
  next
    assume "c1" "\<not> c2"
    then show ?thesis using start [of A] A ne by simp
  next
    assume "\<not> c1" "c2"
    then show ?thesis using start [of B] B ne by simp
  next
    assume "\<not> c1" "\<not> c2"
    then show ?thesis using h by (simp add: lines_of_def split_on_line)
  qed
qed

lemma lines_of_join_concat:
  "ls \<noteq> [] \<Longrightarrow> lines_of (join_lines ls) = concat (map lines_of ls)"
  unfolding lines_of_def join_lines_def
proof (induction "[CHR 0x0A]" ls rule: join_with.induct)
  case 1
  then show ?case by simp
next
  case (2 l)
  then show ?case by simp
next
  case (3 l l2 ls)
  then show ?case by (simp add: split_on_sep_append)
qed

lemma lines_of_line: "CHR 0x0A \<notin> set l \<Longrightarrow> lines_of l = [l]"
  unfolding lines_of_def by (rule split_on_line)

lemma router_lines_free:
  assumes "CHR 0x0A \<notin> set sl" and "CHR 0x0A \<notin> set x"
  shows "\<forall>l \<in> set (tl (apiRouters_lines sl x)). CHR 0x0A \<notin> set l"
    and "\<forall>l \<in> set (tl (studioRouters_lines sl x)). CHR 0x0A \<notin> set l"
  using assms by (simp_all add: apiRouters_lines_def studioRouters_lines_def)

lemma service_lines_free:
  assumes "CHR 0x0A \<notin> set sl"
  shows "\<forall>l \<in> set (tl (apiServices_lines sl kp)). CHR 0x0A \<notin> set l"
    and "\<forall>l \<in> set (tl (studioServices_lines sl kp)). CHR 0x0A \<notin> set l"
  using assms by (simp_all add: apiServices_lines_def studioServices_lines_def show_number_line)

lemma block_shape:
  "apiRouters sl a = join_lines ([] # tl (apiRouters_lines sl a))"
  "studioRouters sl s = join_lines ([] # tl (studioRouters_lines sl s))"
  "apiServices sl kp = join_lines ([] # tl (apiServices_lines sl kp))"
  "studioServices sl sp = join_lines ([] # tl (studioServices_lines sl sp))"
  "tl (apiRouters_lines sl a) \<noteq> []" "tl (studioRouters_lines sl s) \<noteq> []"
  "tl (apiServices_lines sl kp) \<noteq> []" "tl (studioServices_lines sl sp) \<noteq> []"
  by (simp_all add: apiRouters_def studioRouters_def apiServices_def studioServices_def
      apiRouters_lines_def studioRouters_lines_def apiServices_lines_def studioServices_lines_def)

lemma lines_of_traefikConfig:
  assumes nl: "CHR 0x0A \<notin> set sl" "CHR 0x0A \<notin> set a" "CHR 0x0A \<notin> set (or_default sd [])"
  shows "lines_of (traefikConfig t sl a sd kp sp) =
     [''# Auto-generated Traefik routing for project: '' @ sl,
      ''# API Domain: '' @ or_default (Some a) ''not configured'',
      ''# Studio Domain: '' @ or_default sd ''not configured'',
      ''# Generated at: '' @ toISOString t,
      [], ''http:'', ''  routers:''] @
     (if a \<noteq> [] then tl (apiRouters_lines sl a) else []) @
     (if or_default sd [] \<noteq> [] then tl (studioRouters_lines sl (or_default sd [])) else []) @
     [[], ''  middlewares:'', ''    https-redirect:'', ''      redirectScheme:'',
      ''        scheme: https'', ''        permanent: true'', [], ''  services:''] @
     (if a \<noteq> [] then tl (apiServices_lines sl kp) else []) @
     (if or_default sd [] \<noteq> [] then tl (studioServices_lines sl sp) else []) @
     [[]]"
proof -
  have r: "lines_of (''  routers:'' @
        (if a \<noteq> [] then apiRouters sl a else []) @
        (if or_default sd [] \<noteq> [] then studioRouters sl (or_default sd []) else [])) =
      ''  routers:'' # (if a \<noteq> [] then tl (apiRouters_lines sl a) else []) @
        (if or_default sd [] \<noteq> [] then tl (studioRouters_lines sl (or_default sd [])) else [])"
    unfolding block_shape(1,2)
    by (rule lines_of_blocks)
      (simp_all add: router_lines_free [OF nl(1,2)] router_lines_free [OF nl(1,3)] block_shape(5,6))
  have s: "lines_of (''  services:'' @
        (if a \<noteq> [] then apiServices sl kp else []) @
        (if or_default sd [] \<noteq> [] then studioServices sl sp else [])) =
      ''  services:'' # (if a \<noteq> [] then tl (apiServices_lines sl kp) else []) @
        (if or_default sd [] \<noteq> [] then tl (studioServices_lines sl sp) else [])"
    unfolding block_shape(3,4)
    by (rule lines_of_blocks)
      (simp_all add: service_lines_free [OF nl(1)] block_shape(7,8))
  have h: "CHR 0x0A \<notin> set (''# Auto-generated Traefik routing for project: '' @ sl)"
    "CHR 0x0A \<notin> set (''# API Domain: '' @ or_default (Some a) ''not configured'')"
    "CHR 0x0A \<notin> set (''# Studio Domain: '' @ or_default sd ''not configured'')"
    "CHR 0x0A \<notin> set (''# Generated at: '' @ toISOString t)"
    using nl by (auto simp: or_default_def toISOString_line split: option.splits)
  show ?thesis
    unfolding traefikConfig_def Let_def
    by (subst lines_of_join_concat, simp)
      (simp only: list.map concat.simps r s lines_of_line [OF h(1)] lines_of_line [OF h(2)]
        lines_of_line [OF h(3)] lines_of_line [OF h(4)], simp add: lines_of_line)
qed

subsection \<open>The declarations of a rendered document\<close>

lemma takeWhile_all: "\<forall>x \<in> set xs. P x \<Longrightarrow> takeWhile P (xs @ ys) = xs @ takeWhile P ys"
  by (induction xs) auto

lemma dropWhile_all: "\<forall>x \<in> set xs. P x \<Longrightarrow> dropWhile P (xs @ ys) = dropWhile P ys"
  by (induction xs) auto

lemma declarations_append:
  assumes "ys = [] \<or> indent (hd ys) \<le> 4"
  shows "declarations (xs @ ys) = declarations xs @ declarations ys"
proof (induction xs)
  case Nil
  show ?case by simp
next
  case (Cons l xs)
  have stop: "takeWhile (\<lambda>x. 4 < indent x) ys = []"
    using assms by (cases ys) auto
  have "takeWhile (\<lambda>x. 4 < indent x) (xs @ ys) = takeWhile (\<lambda>x. 4 < indent x) xs"
  proof (cases "\<forall>x \<in> set xs. 4 < indent x")
    case True
    then have same: "takeWhile (\<lambda>x. 4 < indent x) xs = xs"
      by (induction xs) auto
    show ?thesis
      by (simp only: takeWhile_all [OF True] stop same append_Nil2)
  next
    case False
    then obtain x where "x \<in> set xs" "\<not> 4 < indent x" by blast
    then show ?thesis by (rule takeWhile_append1)
  qed
  with Cons show ?case by simp
qed

lemma indent_services_key: "2 < indent l \<Longrightarrow> l \<noteq> ''  services:''"
  by (auto simp: indent_def)

lemma sections:
  assumes R: "\<forall>l \<in> set R. 2 < indent l" and S: "\<forall>l \<in> set S. 2 < indent l"
  shows "section_of ''routers''
           (''http:'' # ''  routers:'' # R @
            [''  middlewares:'', ''    https-redirect:'', ''      redirectScheme:'',
             ''        scheme: https'', ''        permanent: true'', ''  services:''] @ S) = R"
    and "section_of ''services''
           (''http:'' # ''  routers:'' # R @
            [''  middlewares:'', ''    https-redirect:'', ''      redirectScheme:'',
             ''        scheme: https'', ''        permanent: true'', ''  services:''] @ S) = S"
proof -
  have R': "\<forall>l \<in> set R. l \<noteq> ''  services:''"
    using R indent_services_key by blast
  show "section_of ''routers''
           (''http:'' # ''  routers:'' # R @
            [''  middlewares:'', ''    https-redirect:'', ''      redirectScheme:'',
             ''        scheme: https'', ''        permanent: true'', ''  services:''] @ S) = R"
    unfolding section_of_def using R
    by (simp add: takeWhile_all) (simp add: indent_def)
  show "section_of ''services''
           (''http:'' # ''  routers:'' # R @
            [''  middlewares:'', ''    https-redirect:'', ''      redirectScheme:'',
             ''        scheme: https'', ''        permanent: true'', ''  services:''] @ S) = S"
    unfolding section_of_def using R' S
    by (simp add: dropWhile_all)
qed

lemma slug_head:
  assumes "sl \<noteq> [] \<longrightarrow> hd sl \<noteq> CHR '' '' \<and> hd sl \<noteq> CHR ''#''"
  shows "takeWhile (\<lambda>c. c = CHR '' '') (sl @ CHR ''-'' # r) = []"
    and "dropWhile (\<lambda>c. c = CHR '' '') (sl @ CHR ''-'' # r) = sl @ CHR ''-'' # r"
    and "(case sl @ CHR ''-'' # r of [] \<Rightarrow> False | c # x \<Rightarrow> c \<noteq> CHR ''#'') = True"
  using assms by (cases sl; simp)+

lemmas block_eval = apiRouters_lines_def studioRouters_lines_def apiServices_lines_def
  studioServices_lines_def is_content_def indent_def butlast_append

lemma api_router_block:
  assumes hd: "sl \<noteq> [] \<longrightarrow> hd sl \<noteq> CHR '' '' \<and> hd sl \<noteq> CHR ''#''"
  shows \<open>declarations (filter is_content (tl (apiRouters_lines sl a))) =
      [(sl @ ''-api'',
         [''      rule: "Host(`'' @ a @ ''`)"'',
          ''      entryPoints:'',
          ''        - websecure'',
          ''      service: '' @ sl @ ''-api'',
          ''      tls:'',
          ''        certResolver: letsencrypt'',
          ''      priority: 10'']),
       (sl @ ''-api-http'',
         [''      rule: "Host(`'' @ a @ ''`)"'',
          ''      entryPoints:'',
          ''        - web'',
          ''      middlewares:'',
          ''        - https-redirect'',
          ''      service: '' @ sl @ ''-api'',
          ''      priority: 5''])]\<close>
    and "\<forall>l \<in> set (filter is_content (tl (apiRouters_lines sl a))). 2 < indent l"
  by (simp_all add: block_eval slug_head [OF hd])

lemma studio_router_block:
  assumes hd: "sl \<noteq> [] \<longrightarrow> hd sl \<noteq> CHR '' '' \<and> hd sl \<noteq> CHR ''#''"
  shows \<open>declarations (filter is_content (tl (studioRouters_lines sl s))) =
      [(sl @ ''-studio'',
         [''      rule: "Host(`'' @ s @ ''`)"'',
          ''      entryPoints:'',
          ''        - websecure'',
          ''      service: '' @ sl @ ''-studio'',
          ''      tls:'',
          ''        certResolver: letsencrypt'',
          ''      priority: 10'']),
       (sl @ ''-studio-http'',
         [''      rule: "Host(`'' @ s @ ''`)"'',
          ''      entryPoints:'',
          ''        - web'',
          ''      middlewares:'',
          ''        - https-redirect'',
          ''      service: '' @ sl @ ''-studio'',
          ''      priority: 5''])]\<close>
    and "\<forall>l \<in> set (filter is_content (tl (studioRouters_lines sl s))). 2 < indent l"
    and "indent (hd (filter is_content (tl (studioRouters_lines sl s)))) \<le> 4"
  by (simp_all add: block_eval slug_head [OF hd])

lemma api_service_block:
  assumes hd: "sl \<noteq> [] \<longrightarrow> hd sl \<noteq> CHR '' '' \<and> hd sl \<noteq> CHR ''#''"
  shows \<open>declarations (filter is_content (tl (apiServices_lines sl kp))) =
      [(sl @ ''-api'',
         [''      loadBalancer:'',
          ''        servers:'',
          ''          - url: "http://'' @ sl @ ''-kong:'' @ show_number kp @ ''"'',
          ''        healthCheck:'',
          ''          path: /health'',
          ''          interval: 30s'',
          ''          timeout: 5s''])]\<close>
    and "\<forall>l \<in> set (filter is_content (tl (apiServices_lines sl kp))). 2 < indent l"
  by (simp_all add: block_eval slug_head [OF hd])

lemma studio_service_block:
  assumes hd: "sl \<noteq> [] \<longrightarrow> hd sl \<noteq> CHR '' '' \<and> hd sl \<noteq> CHR ''#''"
  shows \<open>declarations (filter is_content (tl (studioServices_lines sl sp))) =
      [(sl @ ''-studio'',
         [''      loadBalancer:'',
          ''        servers:'',
          ''          - url: "http://'' @ sl @ ''-studio:'' @ show_number sp @ ''"''])]\<close>
    and "\<forall>l \<in> set (filter is_content (tl (studioServices_lines sl sp))). 2 < indent l"
    and "indent (hd (filter is_content (tl (studioServices_lines sl sp)))) \<le> 4"
  by (simp_all add: block_eval slug_head [OF hd])

lemma document_declarations:
  assumes nl: "CHR 0x0A \<notin> set sl" "CHR 0x0A \<notin> set a" "CHR 0x0A \<notin> set (or_default sd [])"
    and R: "R = (if a \<noteq> [] then tl (apiRouters_lines sl a) else []) @
                (if or_default sd [] \<noteq> [] then tl (studioRouters_lines sl (or_default sd [])) else [])"
    and S: "S = (if a \<noteq> [] then tl (apiServices_lines sl kp) else []) @
                (if or_default sd [] \<noteq> [] then tl (studioServices_lines sl sp) else [])"
    and Rc: "\<forall>l \<in> set (filter is_content R). 2 < indent l"
    and Sc: "\<forall>l \<in> set (filter is_content S). 2 < indent l"
  shows "routers (traefikConfig t sl a sd kp sp) = declarations (filter is_content R)"
    and "services (traefikConfig t sl a sd kp sp) = declarations (filter is_content S)"
proof -
  have fixed: "\<not> is_content (''# Auto-generated Traefik routing for project: '' @ sl)"
    "\<not> is_content (''# API Domain: '' @ or_default (Some a) ''not configured'')"
    "\<not> is_content (''# Studio Domain: '' @ or_default sd ''not configured'')"
    "\<not> is_content (''# Generated at: '' @ toISOString t)"
    "\<not> is_content []" "is_content ''http:''" "is_content ''  routers:''"
    "is_content ''  middlewares:''" "is_content ''    https-redirect:''"
    "is_content ''      redirectScheme:''" "is_content ''        scheme: https''"
    "is_content ''        permanent: true''" "is_content ''  services:''"
    by (simp_all add: is_content_def)
  have "lines_of (traefikConfig t sl a sd kp sp) =
     [''# Auto-generated Traefik routing for project: '' @ sl,
      ''# API Domain: '' @ or_default (Some a) ''not configured'',
      ''# Studio Domain: '' @ or_default sd ''not configured'',
      ''# Generated at: '' @ toISOString t,
      [], ''http:'', ''  routers:''] @ R @
     [[], ''  middlewares:'', ''    https-redirect:'', ''      redirectScheme:'',
      ''        scheme: https'', ''        permanent: true'', [], ''  services:''] @ S @ [[]]"
    unfolding R S by (simp only: lines_of_traefikConfig [OF nl] append_assoc)
  then have content: "filter is_content (lines_of (traefikConfig t sl a sd kp sp)) =
      ''http:'' # ''  routers:'' # filter is_content R @
        [''  middlewares:'', ''    https-redirect:'', ''      redirectScheme:'',
         ''        scheme: https'', ''        permanent: true'', ''  services:''] @
        filter is_content S"
    by (simp add: fixed [simplified])
  show "routers (traefikConfig t sl a sd kp sp) = declarations (filter is_content R)"
    unfolding routers_def content by (simp only: sections(1) [OF Rc Sc])
  show "services (traefikConfig t sl a sd kp sp) = declarations (filter is_content S)"
    unfolding services_def content by (simp only: sections(2) [OF Rc Sc])
qed

text \<open>
  Claim C4. The slug and the domains are single lines, and the slug does not start
  with a space or a hash sign. With an API domain and a Studio domain the document
  declares exactly four routers and exactly two services: for each domain a router on
  \<^verbatim>\<open>websecure\<close> with \<^verbatim>\<open>certResolver: letsencrypt\<close> at priority 10 and a router on
  \<^verbatim>\<open>web\<close> with the \<^verbatim>\<open>https-redirect\<close> middleware at priority 5. With the API
  domain alone it declares the two API routers and the API service, and no Studio
  router and no Studio service.
\<close>

theorem rendered_document_declarations:
  assumes "CHR 0x0A \<notin> set sl" and "sl \<noteq> [] \<longrightarrow> hd sl \<noteq> CHR '' '' \<and> hd sl \<noteq> CHR ''#''"
    and "CHR 0x0A \<notin> set a" and "CHR 0x0A \<notin> set s"
  shows \<open>(a \<noteq> [] \<and> s \<noteq> [] \<longrightarrow>
      routers (traefikConfig t sl a (Some s) kp sp) =
      [(sl @ ''-api'',
         [''      rule: "Host(`'' @ a @ ''`)"'',
          ''      entryPoints:'',
          ''        - websecure'',
          ''      service: '' @ sl @ ''-api'',
          ''      tls:'',
          ''        certResolver: letsencrypt'',
          ''      priority: 10'']),
       (sl @ ''-api-http'',
         [''      rule: "Host(`'' @ a @ ''`)"'',
          ''      entryPoints:'',
          ''        - web'',
          ''      middlewares:'',
          ''        - https-redirect'',
          ''      service: '' @ sl @ ''-api'',
          ''      priority: 5'']),
       (sl @ ''-studio'',
         [''      rule: "Host(`'' @ s @ ''`)"'',
          ''      entryPoints:'',
          ''        - websecure'',
          ''      service: '' @ sl @ ''-studio'',
          ''      tls:'',
          ''        certResolver: letsencrypt'',
          ''      priority: 10'']),
       (sl @ ''-studio-http'',
         [''      rule: "Host(`'' @ s @ ''`)"'',
          ''      entryPoints:'',
          ''        - web'',
          ''      middlewares:'',
          ''        - https-redirect'',
          ''      service: '' @ sl @ ''-studio'',
          ''      priority: 5''])] \<and>
      services (traefikConfig t sl a (Some s) kp sp) =
      [(sl @ ''-api'',
         [''      loadBalancer:'',
          ''        servers:'',
          ''          - url: "http://'' @ sl @ ''-kong:'' @ show_number kp @ ''"'',
          ''        healthCheck:'',
          ''          path: /health'',
          ''          interval: 30s'',
          ''          timeout: 5s'']),
       (sl @ ''-studio'',
         [''      loadBalancer:'',
          ''        servers:'',
          ''          - url: "http://'' @ sl @ ''-studio:'' @ show_number sp @ ''"''])] \<and>
      length (routers (traefikConfig t sl a (Some s) kp sp)) = 4 \<and>
      length (services (traefikConfig t sl a (Some s) kp sp)) = 2) \<and>
    (a \<noteq> [] \<and> (sd = None \<or> sd = Some []) \<longrightarrow>
      routers (traefikConfig t sl a sd kp sp) =
      [(sl @ ''-api'',
         [''      rule: "Host(`'' @ a @ ''`)"'',
          ''      entryPoints:'',
          ''        - websecure'',
          ''      service: '' @ sl @ ''-api'',
          ''      tls:'',
          ''        certResolver: letsencrypt'',
          ''      priority: 10'']),
       (sl @ ''-api-http'',
         [''      rule: "Host(`'' @ a @ ''`)"'',
          ''      entryPoints:'',
          ''        - web'',
          ''      middlewares:'',
          ''        - https-redirect'',
          ''      service: '' @ sl @ ''-api'',
          ''      priority: 5''])] \<and>
      services (traefikConfig t sl a sd kp sp) =
      [(sl @ ''-api'',
         [''      loadBalancer:'',
          ''        servers:'',
          ''          - url: "http://'' @ sl @ ''-kong:'' @ show_number kp @ ''"'',
          ''        healthCheck:'',
          ''          path: /health'',
          ''          interval: 30s'',
          ''          timeout: 5s''])])\<close>
proof (intro conjI impI)
  assume ne: "a \<noteq> [] \<and> s \<noteq> []"
  have sd: "CHR 0x0A \<notin> set (or_default (Some s) [])"
    using assms(4) by (simp add: or_default_def)
  have od: "or_default (Some s) [] = s" "or_default (Some s) [] \<noteq> []"
    using ne by (simp_all add: or_default_def)
  note blocks = api_router_block [OF assms(2)] studio_router_block [OF assms(2)]
    api_service_block [OF assms(2)] studio_service_block [OF assms(2)]
  have Rc: "\<forall>l \<in> set (filter is_content (tl (apiRouters_lines sl a) @ tl (studioRouters_lines sl s))). 2 < indent l"
    using blocks(2) [of a] blocks(4) [of s] by auto
  have Sc: "\<forall>l \<in> set (filter is_content (tl (apiServices_lines sl kp) @ tl (studioServices_lines sl sp))). 2 < indent l"
    using blocks(7) [of kp] blocks(9) [of sp] by auto
  have r: "routers (traefikConfig t sl a (Some s) kp sp) =
      declarations (filter is_content (tl (apiRouters_lines sl a) @ tl (studioRouters_lines sl s)))"
    by (rule document_declarations(1) [OF assms(1,3) sd _ _ Rc Sc]) (simp_all add: ne od)
  have v: "services (traefikConfig t sl a (Some s) kp sp) =
      declarations (filter is_content (tl (apiServices_lines sl kp) @ tl (studioServices_lines sl sp)))"
    by (rule document_declarations(2) [OF assms(1,3) sd _ _ Rc Sc]) (simp_all add: ne od)
  show r': \<open>routers (traefikConfig t sl a (Some s) kp sp) =
      [(sl @ ''-api'',
         [''      rule: "Host(`'' @ a @ ''`)"'',
          ''      entryPoints:'',
          ''        - websecure'',
          ''      service: '' @ sl @ ''-api'',
          ''      tls:'',
          ''        certResolver: letsencrypt'',
          ''      priority: 10'']),
       (sl @ ''-api-http'',
         [''      rule: "Host(`'' @ a @ ''`)"'',
          ''      entryPoints:'',
          ''        - web'',
          ''      middlewares:'',
          ''        - https-redirect'',
          ''      service: '' @ sl @ ''-api'',
          ''      priority: 5'']),
       (sl @ ''-studio'',
         [''      rule: "Host(`'' @ s @ ''`)"'',
          ''      entryPoints:'',
          ''        - websecure'',
          ''      service: '' @ sl @ ''-studio'',
          ''      tls:'',
          ''        certResolver: letsencrypt'',
          ''      priority: 10'']),
       (sl @ ''-studio-http'',
         [''      rule: "Host(`'' @ s @ ''`)"'',
          ''      entryPoints:'',
          ''        - web'',
          ''      middlewares:'',
          ''        - https-redirect'',
          ''      service: '' @ sl @ ''-studio'',
          ''      priority: 5''])]\<close>
    unfolding r filter_append
    by (subst declarations_append) (simp_all only: blocks append.simps simp_thms)
  show v': \<open>services (traefikConfig t sl a (Some s) kp sp) =
      [(sl @ ''-api'',
         [''      loadBalancer:'',
          ''        servers:'',
          ''          - url: "http://'' @ sl @ ''-kong:'' @ show_number kp @ ''"'',
          ''        healthCheck:'',
          ''          path: /health'',
          ''          interval: 30s'',
          ''          timeout: 5s'']),
       (sl @ ''-studio'',
         [''      loadBalancer:'',
          ''        servers:'',
          ''          - url: "http://'' @ sl @ ''-studio:'' @ show_number sp @ ''"''])]\<close>
    unfolding v filter_append
    by (subst declarations_append) (simp_all only: blocks append.simps simp_thms)
  show "length (routers (traefikConfig t sl a (Some s) kp sp)) = 4"
    unfolding r' by simp
  show "length (services (traefikConfig t sl a (Some s) kp sp)) = 2"
    unfolding v' by simp
next
  assume h: "a \<noteq> [] \<and> (sd = None \<or> sd = Some [])"
  then have od: "or_default sd [] = []"
    by (auto simp: or_default_def)
  have sd: "CHR 0x0A \<notin> set (or_default sd [])"
    by (simp add: od)
  note blocks = api_router_block [OF assms(2)] api_service_block [OF assms(2)]
  have Rc: "\<forall>l \<in> set (filter is_content (tl (apiRouters_lines sl a))). 2 < indent l"
    by (rule blocks(2))
  have Sc: "\<forall>l \<in> set (filter is_content (tl (apiServices_lines sl kp))). 2 < indent l"
    by (rule blocks(4))
  show \<open>routers (traefikConfig t sl a sd kp sp) =
      [(sl @ ''-api'',
         [''      rule: "Host(`'' @ a @ ''`)"'',
          ''      entryPoints:'',
          ''        - websecure'',
          ''      service: '' @ sl @ ''-api'',
          ''      tls:'',
          ''        certResolver: letsencrypt'',
          ''      priority: 10'']),
       (sl @ ''-api-http'',
         [''      rule: "Host(`'' @ a @ ''`)"'',
          ''      entryPoints:'',
          ''        - web'',
          ''      middlewares:'',
          ''        - https-redirect'',
          ''      service: '' @ sl @ ''-api'',
          ''      priority: 5''])]\<close>
    by (subst document_declarations(1) [OF assms(1,3) sd _ _ Rc Sc])
      (simp_all add: h od blocks(1))
  show \<open>services (traefikConfig t sl a sd kp sp) =
      [(sl @ ''-api'',
         [''      loadBalancer:'',
          ''        servers:'',
          ''          - url: "http://'' @ sl @ ''-kong:'' @ show_number kp @ ''"'',
          ''        healthCheck:'',
          ''          path: /health'',
          ''          interval: 30s'',
          ''          timeout: 5s''])]\<close>
    by (subst document_declarations(2) [OF assms(1,3) sd _ _ Rc Sc])
      (simp_all add: h od blocks(3))
qed

theorem rendered_document_declarations_witness:
  "map fst (routers (traefikConfig demo_date ''demo'' ''api.demo.test'' (Some ''studio.demo.test'')
                       (Num 8080) (Num 3000)))
     = [''demo-api'', ''demo-api-http'', ''demo-studio'', ''demo-studio-http''] \<and>
   map fst (services (traefikConfig demo_date ''demo'' ''api.demo.test'' (Some ''studio.demo.test'')
                        (Num 8080) (Num 3000)))
     = [''demo-api'', ''demo-studio''] \<and>
   map fst (routers (traefikConfig demo_date ''demo'' ''api.demo.test'' (Some []) (Num 8080) (Num 3000)))
     = [''demo-api'', ''demo-api-http''] \<and>
   map fst (services (traefikConfig demo_date ''demo'' ''api.demo.test'' (Some []) (Num 8080) (Num 3000)))
     = [''demo-api'']"
  using rendered_document_declarations
    [where sl = "''demo''" and a = "''api.demo.test''" and s = "''studio.demo.test''"
       and sd = "Some []" and t = demo_date and kp = "Num 8080" and sp = "Num 3000"]
  by simp

subsection \<open>What an accepted update writes\<close>

lemma declarations_of_blocks:
  assumes "B = [] \<or> indent (hd (filter is_content B)) \<le> 4"
  shows "declarations (filter is_content ((if c1 then A else []) @ (if c2 then B else []))) =
         (if c1 then declarations (filter is_content A) else []) @
         (if c2 then declarations (filter is_content B) else [])"
proof -
  have "filter is_content B = [] \<or> indent (hd (filter is_content B)) \<le> 4"
    using assms by auto
  then have "declarations (filter is_content A @ filter is_content B) =
      declarations (filter is_content A) @ declarations (filter is_content B)"
    by (rule declarations_append)
  then show ?thesis by simp
qed

text \<open>
  What a rendered document declares, for any pair of domains: the two API routers and
  the API service when the API domain is not empty, followed by the two Studio routers
  and the Studio service when the Studio domain is not empty.
\<close>

lemma declarations_of_document:
  assumes nl: "CHR 0x0A \<notin> set sl" "CHR 0x0A \<notin> set a" "CHR 0x0A \<notin> set (or_default sd [])"
    and hd: "sl \<noteq> [] \<longrightarrow> hd sl \<noteq> CHR '' '' \<and> hd sl \<noteq> CHR ''#''"
  shows \<open>routers (traefikConfig t sl a sd kp sp) =
      (if a \<noteq> [] then
      [(sl @ ''-api'',
         [''      rule: "Host(`'' @ a @ ''`)"'',
          ''      entryPoints:'',
          ''        - websecure'',
          ''      service: '' @ sl @ ''-api'',
          ''      tls:'',
          ''        certResolver: letsencrypt'',
          ''      priority: 10'']),
       (sl @ ''-api-http'',
         [''      rule: "Host(`'' @ a @ ''`)"'',
          ''      entryPoints:'',
          ''        - web'',
          ''      middlewares:'',
          ''        - https-redirect'',
          ''      service: '' @ sl @ ''-api'',
          ''      priority: 5''])] else []) @
      (if or_default sd [] \<noteq> [] then
      [(sl @ ''-studio'',
         [''      rule: "Host(`'' @ or_default sd [] @ ''`)"'',
          ''      entryPoints:'',
          ''        - websecure'',
          ''      service: '' @ sl @ ''-studio'',
          ''      tls:'',
          ''        certResolver: letsencrypt'',
          ''      priority: 10'']),
       (sl @ ''-studio-http'',
         [''      rule: "Host(`'' @ or_default sd [] @ ''`)"'',
          ''      entryPoints:'',
          ''        - web'',
          ''      middlewares:'',
          ''        - https-redirect'',
          ''      service: '' @ sl @ ''-studio'',
          ''      priority: 5''])] else [])\<close>
    and \<open>services (traefikConfig t sl a sd kp sp) =
      (if a \<noteq> [] then
      [(sl @ ''-api'',
         [''      loadBalancer:'',
          ''        servers:'',
          ''          - url: "http://'' @ sl @ ''-kong:'' @ show_number kp @ ''"'',
          ''        healthCheck:'',
          ''          path: /health'',
          ''          interval: 30s'',
          ''          timeout: 5s''])] else []) @
      (if or_default sd [] \<noteq> [] then
      [(sl @ ''-studio'',
         [''      loadBalancer:'',
          ''        servers:'',
          ''          - url: "http://'' @ sl @ ''-studio:'' @ show_number sp @ ''"''])] else [])\<close>
proof -
  note blocks = api_router_block [OF hd] studio_router_block [OF hd]
    api_service_block [OF hd] studio_service_block [OF hd]
  let ?R = "(if a \<noteq> [] then tl (apiRouters_lines sl a) else []) @
            (if or_default sd [] \<noteq> [] then tl (studioRouters_lines sl (or_default sd [])) else [])"
  let ?S = "(if a \<noteq> [] then tl (apiServices_lines sl kp) else []) @
            (if or_default sd [] \<noteq> [] then tl (studioServices_lines sl sp) else [])"
  have Rc: "\<forall>l \<in> set (filter is_content ?R). 2 < indent l"
    using blocks(2) [of a] blocks(4) [of "or_default sd []"] by auto
  have Sc: "\<forall>l \<in> set (filter is_content ?S). 2 < indent l"
    using blocks(7) [of kp] blocks(9) [of sp] by auto
  have r: "routers (traefikConfig t sl a sd kp sp) = declarations (filter is_content ?R)"
    by (rule document_declarations(1) [OF nl refl refl Rc Sc])
  have v: "services (traefikConfig t sl a sd kp sp) = declarations (filter is_content ?S)"
    by (rule document_declarations(2) [OF nl refl refl Rc Sc])
  show \<open>routers (traefikConfig t sl a sd kp sp) =
      (if a \<noteq> [] then
      [(sl @ ''-api'',
         [''      rule: "Host(`'' @ a @ ''`)"'',
          ''      entryPoints:'',
          ''        - websecure'',
          ''      service: '' @ sl @ ''-api'',
          ''      tls:'',
          ''        certResolver: letsencrypt'',
          ''      priority: 10'']),
       (sl @ ''-api-http'',
         [''      rule: "Host(`'' @ a @ ''`)"'',
          ''      entryPoints:'',
          ''        - web'',
          ''      middlewares:'',
          ''        - https-redirect'',
          ''      service: '' @ sl @ ''-api'',
          ''      priority: 5''])] else []) @
      (if or_default sd [] \<noteq> [] then
      [(sl @ ''-studio'',
         [''      rule: "Host(`'' @ or_default sd [] @ ''`)"'',
          ''      entryPoints:'',
          ''        - websecure'',
          ''      service: '' @ sl @ ''-studio'',
          ''      tls:'',
          ''        certResolver: letsencrypt'',
          ''      priority: 10'']),
       (sl @ ''-studio-http'',
         [''      rule: "Host(`'' @ or_default sd [] @ ''`)"'',
          ''      entryPoints:'',
          ''        - web'',
          ''      middlewares:'',
          ''        - https-redirect'',
          ''      service: '' @ sl @ ''-studio'',
          ''      priority: 5''])] else [])\<close>
    unfolding r
    by (subst declarations_of_blocks) (simp_all only: blocks simp_thms)
  show \<open>services (traefikConfig t sl a sd kp sp) =
      (if a \<noteq> [] then
      [(sl @ ''-api'',
         [''      loadBalancer:'',
          ''        servers:'',
          ''          - url: "http://'' @ sl @ ''-kong:'' @ show_number kp @ ''"'',
          ''        healthCheck:'',
          ''          path: /health'',
          ''          interval: 30s'',
          ''          timeout: 5s''])] else []) @
      (if or_default sd [] \<noteq> [] then
      [(sl @ ''-studio'',
         [''      loadBalancer:'',
          ''        servers:'',
          ''          - url: "http://'' @ sl @ ''-studio:'' @ show_number sp @ ''"''])] else [])\<close>
    unfolding v
    by (subst declarations_of_blocks) (simp_all only: blocks simp_thms)
qed

text \<open>A string of the domain format has no line break.\<close>

lemma domainRegex_test_line:
  assumes "domainRegex_test s"
  shows "CHR 0x0A \<notin> set s"
proof -
  from assms obtain c mid a b tl where s: "s = c # mid @ CHR ''.'' # a # b # tl"
    and c: "is_alnum c" and mid: "\<forall>x \<in> set mid. is_interior x"
    and a: "is_alpha a" and b: "is_alpha b" and tl: "\<forall>x \<in> set tl. is_alpha x"
    unfolding domainRegex_test_def regex_test_lang lang_domainRegex by (elim exE conjE)
  have "\<forall>x \<in> set s. is_interior x"
    using c mid a b tl by (auto simp: s is_interior_def is_alnum_def)
  moreover have "\<not> is_interior (CHR 0x0A)"
    by (simp add: is_interior_def is_alnum_def is_alpha_def is_digit_def)
  ultimately show ?thesis by blast
qed

text \<open>
  The file that an accepted update writes: the document of the final pair of domains,
  each of them a single line. A supplied domain is final; where the field is absent
  the domain of the row is.
\<close>

lemma PUT_project_domain_written:
  assumes auth: "authenticate w tok = None" and found: "findUnique pid (projects st) = Some p"
    and api: "truthy dfield \<longrightarrow> domainRegex_test (str_of dfield) \<and>
           findFirst (\<lambda>q. domain q = Some (str_of dfield) \<and> project_id q \<noteq> pid) (projects st) = None"
    and studio: "truthy sfield \<longrightarrow> domainRegex_test (str_of sfield) \<and>
           findFirst (\<lambda>q. studioDomain q = Some (str_of sfield) \<and> project_id q \<noteq> pid) (projects st) = None"
    and some: "truthy dfield \<or> truthy sfield"
    and pd: "\<forall>x. domain p = Some x \<longrightarrow> CHR 0x0A \<notin> set x"
    and ps: "\<forall>x. studioDomain p = Some x \<longrightarrow> CHR 0x0A \<notin> set x"
  shows "\<exists>fd fs.
      files (snd (PUT_project_domain w tok pid dfield sfield st)) (projectConfigPath w (slug p)) =
        Some (traefikConfig (now w) (slug p) fd (Some fs)
                (kongPort (getProjectPorts (envVarsMap (envVars p))))
                (studioPort (getProjectPorts (envVarsMap (envVars p))))) \<and>
      CHR 0x0A \<notin> set fd \<and> CHR 0x0A \<notin> set fs \<and>
      (truthy dfield \<longrightarrow> fd = str_of dfield) \<and> (truthy sfield \<longrightarrow> fs = str_of sfield) \<and>
      (dfield = Undefined \<longrightarrow> fd = or_default (domain p) []) \<and>
      (sfield = Undefined \<longrightarrow> fs = or_default (studioDomain p) [])"
proof -
  define a where "a = (truthy dfield \<and> verifyDomainDNS (resolver w) (str_of dfield) = Inr True)"
  define s where "s = (truthy sfield \<and> verifyDomainDNS (resolver w) (str_of sfield) = Inr True)"
  define up where "up = updateData dfield sfield a s p"
  define fd where "fd = or_default (if truthy dfield then Some (str_of dfield) else domain up) []"
  define fs where "fs = or_default (if truthy sfield then Some (str_of sfield) else studioDomain up) []"
  note acc = PUT_project_domain_accepted [OF auth _ _ some found _ _ a_def s_def up_def fd_def fs_def]
  have ne: "fd \<noteq> [] \<or> fs \<noteq> []"
    using some by (cases dfield; cases sfield) (auto simp: fd_def fs_def or_default_def)
  have written: "files (snd (PUT_project_domain w tok pid dfield sfield st)) (projectConfigPath w (slug p)) =
        Some (traefikConfig (now w) (slug p) fd (Some fs)
                (kongPort (getProjectPorts (envVarsMap (envVars p))))
                (studioPort (getProjectPorts (envVarsMap (envVars p)))))"
    using api studio ne
    by (subst acc) (auto simp: generateProjectTraefikConfig_def writeFile_def)
  have dline: "CHR 0x0A \<notin> set fd"
    using api pd domainRegex_test_line [of "str_of dfield"]
    by (cases dfield) (auto simp: fd_def up_def updateData_def Let_def or_default_def split: option.splits)
  have sline: "CHR 0x0A \<notin> set fs"
    using studio ps domainRegex_test_line [of "str_of sfield"]
    by (cases sfield) (auto simp: fs_def up_def updateData_def Let_def or_default_def split: option.splits)
  have "truthy dfield \<longrightarrow> fd = str_of dfield" "truthy sfield \<longrightarrow> fs = str_of sfield"
    by (cases dfield; auto simp: fd_def or_default_def) (cases sfield; auto simp: fs_def or_default_def)
  moreover have "dfield = Undefined \<longrightarrow> fd = or_default (domain p) []"
    "sfield = Undefined \<longrightarrow> fs = or_default (studioDomain p) []"
    by (auto simp: fd_def fs_def up_def updateData_def Let_def)
  ultimately show ?thesis
    using written dline sline by blast
qed

text \<open>
  Claim C3. A project holds one of the two domains, a single line, and its slug is a
  single line that does not start with a space or a hash sign. An authenticated update
  supplies only the other domain (the first field is absent from the body), well
  formed and free. Then the routing file of the project is written with the document
  of the merged pair, and the file declares the two routers and the service of the
  domain held before next to the two routers and the service of the new domain.
\<close>

theorem one_domain_update_keeps_the_other:
  assumes "authenticate w tok = None" and "findUnique pid (projects st) = Some p"
    and "CHR 0x0A \<notin> set (slug p)"
    and "slug p \<noteq> [] \<longrightarrow> hd (slug p) \<noteq> CHR '' '' \<and> hd (slug p) \<noteq> CHR ''#''"
    and "a \<noteq> []" and "s \<noteq> []"
    and "(dfield = Undefined \<and> sfield = Str s \<and> domain p = Some a \<and> CHR 0x0A \<notin> set a \<and>
          domainRegex_test s \<and>
          findFirst (\<lambda>q. studioDomain q = Some s \<and> project_id q \<noteq> pid) (projects st) = None) \<or>
         (dfield = Str a \<and> sfield = Undefined \<and> studioDomain p = Some s \<and> CHR 0x0A \<notin> set s \<and>
          domainRegex_test a \<and>
          findFirst (\<lambda>q. domain q = Some a \<and> project_id q \<noteq> pid) (projects st) = None)"
  shows \<open>\<exists>doc.
      files (snd (PUT_project_domain w tok pid dfield sfield st)) (projectConfigPath w (slug p)) = Some doc \<and>
      doc = traefikConfig (now w) (slug p) a (Some s)
              (kongPort (getProjectPorts (envVarsMap (envVars p))))
              (studioPort (getProjectPorts (envVarsMap (envVars p)))) \<and>
      routers doc =
        [(slug p @ ''-api'',
           [''      rule: "Host(`'' @ a @ ''`)"'',
            ''      entryPoints:'',
            ''        - websecure'',
            ''      service: '' @ slug p @ ''-api'',
            ''      tls:'',
            ''        certResolver: letsencrypt'',
            ''      priority: 10'']),
         (slug p @ ''-api-http'',
           [''      rule: "Host(`'' @ a @ ''`)"'',
            ''      entryPoints:'',
            ''        - web'',
            ''      middlewares:'',
            ''        - https-redirect'',
            ''      service: '' @ slug p @ ''-api'',
            ''      priority: 5'']),
         (slug p @ ''-studio'',
           [''      rule: "Host(`'' @ s @ ''`)"'',
            ''      entryPoints:'',
            ''        - websecure'',
            ''      service: '' @ slug p @ ''-studio'',
            ''      tls:'',
            ''        certResolver: letsencrypt'',
            ''      priority: 10'']),
         (slug p @ ''-studio-http'',
           [''      rule: "Host(`'' @ s @ ''`)"'',
            ''      entryPoints:'',
            ''        - web'',
            ''      middlewares:'',
            ''        - https-redirect'',
            ''      service: '' @ slug p @ ''-studio'',
            ''      priority: 5''])] \<and>
      services doc =
        [(slug p @ ''-api'',
           [''      loadBalancer:'',
            ''        servers:'',
            ''          - url: "http://'' @ slug p @ ''-kong:'' @ show_number (kongPort (getProjectPorts (envVarsMap (envVars p)))) @ ''"'',
            ''        healthCheck:'',
            ''          path: /health'',
            ''          interval: 30s'',
            ''          timeout: 5s'']),
         (slug p @ ''-studio'',
           [''      loadBalancer:'',
            ''        servers:'',
            ''          - url: "http://'' @ slug p @ ''-studio:'' @ show_number (studioPort (getProjectPorts (envVarsMap (envVars p)))) @ ''"''])]\<close>
proof -
  let ?doc = "traefikConfig (now w) (slug p) a (Some s)
              (kongPort (getProjectPorts (envVarsMap (envVars p))))
              (studioPort (getProjectPorts (envVarsMap (envVars p))))"
  have lines: "CHR 0x0A \<notin> set a" "CHR 0x0A \<notin> set (or_default (Some s) [])"
    using assms(7) domainRegex_test_line [of a] domainRegex_test_line [of s]
    by (auto simp: or_default_def)
  have od: "or_default (Some s) [] = s"
    using assms(6) by (simp add: or_default_def)
  have written: "files (snd (PUT_project_domain w tok pid dfield sfield st)) (projectConfigPath w (slug p)) =
      Some ?doc"
    using assms(7)
  proof
    assume h: "dfield = Undefined \<and> sfield = Str s \<and> domain p = Some a \<and> CHR 0x0A \<notin> set a \<and>
          domainRegex_test s \<and>
          findFirst (\<lambda>q. studioDomain q = Some s \<and> project_id q \<noteq> pid) (projects st) = None"
    show ?thesis
      by (subst PUT_project_domain_accepted [OF assms(1) _ _ _ assms(2) _ _ refl refl refl refl refl])
        (simp_all add: h assms(5,6) updateData_def or_default_def generateProjectTraefikConfig_def
          writeFile_def)
  next
    assume h: "dfield = Str a \<and> sfield = Undefined \<and> studioDomain p = Some s \<and> CHR 0x0A \<notin> set s \<and>
          domainRegex_test a \<and>
          findFirst (\<lambda>q. domain q = Some a \<and> project_id q \<noteq> pid) (projects st) = None"
    show ?thesis
      by (subst PUT_project_domain_accepted [OF assms(1) _ _ _ assms(2) _ _ refl refl refl refl refl])
        (simp_all add: h assms(5,6) updateData_def or_default_def generateProjectTraefikConfig_def
          writeFile_def)
  qed
  note decl = declarations_of_document [OF assms(3) lines assms(4), unfolded od,
      of "now w" "kongPort (getProjectPorts (envVarsMap (envVars p)))"
         "studioPort (getProjectPorts (envVarsMap (envVars p)))"]
  show ?thesis
    using written decl assms(5,6) by simp
qed

theorem one_domain_update_keeps_the_other_witness:
  \<open>domain project_demo = Some ''api.demo.test'' \<and> studioDomain project_demo = None \<and>
   (\<exists>doc. files (snd (PUT_project_domain demo_world (Some ''session-1'') ''B'' Undefined
                         (Str ''studio.demo.test'') demo_state)) demo_yml = Some doc \<and>
      routers doc =
      [(''demo'' @ ''-api'',
         [''      rule: "Host(`'' @ ''api.demo.test'' @ ''`)"'',
          ''      entryPoints:'',
          ''        - websecure'',
          ''      service: '' @ ''demo'' @ ''-api'',
          ''      tls:'',
          ''        certResolver: letsencrypt'',
          ''      priority: 10'']),
       (''demo'' @ ''-api-http'',
         [''      rule: "Host(`'' @ ''api.demo.test'' @ ''`)"'',
          ''      entryPoints:'',
          ''        - web'',
          ''      middlewares:'',
          ''        - https-redirect'',
          ''      service: '' @ ''demo'' @ ''-api'',
          ''      priority: 5'']),
       (''demo'' @ ''-studio'',
         [''      rule: "Host(`'' @ ''studio.demo.test'' @ ''`)"'',
          ''      entryPoints:'',
          ''        - websecure'',
          ''      service: '' @ ''demo'' @ ''-studio'',
          ''      tls:'',
          ''        certResolver: letsencrypt'',
          ''      priority: 10'']),
       (''demo'' @ ''-studio-http'',
         [''      rule: "Host(`'' @ ''studio.demo.test'' @ ''`)"'',
          ''      entryPoints:'',
          ''        - web'',
          ''      middlewares:'',
          ''        - https-redirect'',
          ''      service: '' @ ''demo'' @ ''-studio'',
          ''      priority: 5''])] \<and>
      map fst (services doc) = [''demo-api'', ''demo-studio''])\<close>
proof -
  have row: "domain project_demo = Some ''api.demo.test''" "studioDomain project_demo = None"
    by (simp_all add: project_demo_def)
  show ?thesis
    using one_domain_update_keeps_the_other [OF demo_auth demo_find,
        of "''api.demo.test''" "''studio.demo.test''" Undefined "Str ''studio.demo.test''"]
    by (simp add: row demo_formats demo_free_studio demo_slug demo_path demo_now demo_ports)
qed

subsection \<open>An update while DNS is pending\<close>

text \<open>
  Claim C7. An authenticated update of an existing project, whose supplied domains are
  well formed and free, succeeds although the DNS verification of a domain fails (the
  slug and the domains of the row being single lines, the slug not starting with a
  space or a hash sign): the response is the success body with that domain, its
  verified flag \<^verbatim>\<open>false\<close> and the pending message; the row holds the domain with the
  flag \<^verbatim>\<open>false\<close>; and the routing file is written and declares the two routers
  and the service of that domain. This holds for the API domain and for the Studio
  domain.
\<close>

theorem domain_update_succeeds_while_dns_pending:
  assumes "authenticate w tok = None" and "findUnique pid (projects st) = Some p"
    and "truthy dfield \<longrightarrow> domainRegex_test (str_of dfield) \<and>
           findFirst (\<lambda>q. domain q = Some (str_of dfield) \<and> project_id q \<noteq> pid) (projects st) = None"
    and "truthy sfield \<longrightarrow> domainRegex_test (str_of sfield) \<and>
           findFirst (\<lambda>q. studioDomain q = Some (str_of sfield) \<and> project_id q \<noteq> pid) (projects st) = None"
    and "CHR 0x0A \<notin> set (slug p)"
    and "slug p \<noteq> [] \<longrightarrow> hd (slug p) \<noteq> CHR '' '' \<and> hd (slug p) \<noteq> CHR ''#''"
    and "\<forall>x. domain p = Some x \<longrightarrow> CHR 0x0A \<notin> set x"
    and "\<forall>x. studioDomain p = Some x \<longrightarrow> CHR 0x0A \<notin> set x"
  shows
   \<open>(dfield = Str d \<and> d \<noteq> [] \<and> verifyDomainDNS (resolver w) d = Inr False \<longrightarrow>
       (\<exists>sd sv msg. fst (PUT_project_domain w tok pid dfield sfield st) = DomainSaved (Some d) False sd sv msg \<and>
          prefix ''API domain configured (DNS pending)'' msg) \<and>
       (\<exists>p'. findUnique pid (projects (snd (PUT_project_domain w tok pid dfield sfield st))) = Some p' \<and>
          domain p' = Some d \<and> \<not> domainVerified p') \<and>
       (\<exists>doc rs ss.
          files (snd (PUT_project_domain w tok pid dfield sfield st)) (projectConfigPath w (slug p)) = Some doc \<and>
          routers doc =
          [(slug p @ ''-api'',
             [''      rule: "Host(`'' @ d @ ''`)"'',
              ''      entryPoints:'',
              ''        - websecure'',
              ''      service: '' @ slug p @ ''-api'',
              ''      tls:'',
              ''        certResolver: letsencrypt'',
              ''      priority: 10'']),
           (slug p @ ''-api-http'',
             [''      rule: "Host(`'' @ d @ ''`)"'',
              ''      entryPoints:'',
              ''        - web'',
              ''      middlewares:'',
              ''        - https-redirect'',
              ''      service: '' @ slug p @ ''-api'',
              ''      priority: 5''])] @ rs \<and>
          services doc =
          [(slug p @ ''-api'',
             [''      loadBalancer:'',
              ''        servers:'',
              ''          - url: "http://'' @ slug p @ ''-kong:'' @ show_number (kongPort (getProjectPorts (envVarsMap (envVars p)))) @ ''"'',
              ''        healthCheck:'',
              ''          path: /health'',
              ''          interval: 30s'',
              ''          timeout: 5s''])] @ ss)) \<and>
    (sfield = Str s \<and> s \<noteq> [] \<and> verifyDomainDNS (resolver w) s = Inr False \<longrightarrow>
       (\<exists>ad av msg. fst (PUT_project_domain w tok pid dfield sfield st) = DomainSaved ad av (Some s) False msg \<and>
          suffix ''Studio domain configured (DNS pending)'' msg) \<and>
       (\<exists>p'. findUnique pid (projects (snd (PUT_project_domain w tok pid dfield sfield st))) = Some p' \<and>
          studioDomain p' = Some s \<and> \<not> studioDomainVerified p') \<and>
       (\<exists>doc rs ss.
          files (snd (PUT_project_domain w tok pid dfield sfield st)) (projectConfigPath w (slug p)) = Some doc \<and>
          routers doc = rs @
          [(slug p @ ''-studio'',
             [''      rule: "Host(`'' @ s @ ''`)"'',
              ''      entryPoints:'',
              ''        - websecure'',
              ''      service: '' @ slug p @ ''-studio'',
              ''      tls:'',
              ''        certResolver: letsencrypt'',
              ''      priority: 10'']),
           (slug p @ ''-studio-http'',
             [''      rule: "Host(`'' @ s @ ''`)"'',
              ''      entryPoints:'',
              ''        - web'',
              ''      middlewares:'',
              ''        - https-redirect'',
              ''      service: '' @ slug p @ ''-studio'',
              ''      priority: 5''])] \<and>
          services doc = ss @
          [(slug p @ ''-studio'',
             [''      loadBalancer:'',
              ''        servers:'',
              ''          - url: "http://'' @ slug p @ ''-studio:'' @ show_number (studioPort (getProjectPorts (envVarsMap (envVars p)))) @ ''"''])]))\<close>
proof (intro conjI impI)
  assume h: "dfield = Str d \<and> d \<noteq> [] \<and> verifyDomainDNS (resolver w) d = Inr False"
  note acc = PUT_project_domain_accepted [OF assms(1) _ _ _ assms(2) _ _ refl refl refl refl refl,
      of dfield sfield]
  show "\<exists>sd sv msg. fst (PUT_project_domain w tok pid dfield sfield st) = DomainSaved (Some d) False sd sv msg \<and>
          prefix ''API domain configured (DNS pending)'' msg"
    using assms(3,4) h
    by (subst acc) (auto simp: updateData_def responseMessage_def or_default_def Let_def)
  show "\<exists>p'. findUnique pid (projects (snd (PUT_project_domain w tok pid dfield sfield st))) = Some p' \<and>
          domain p' = Some d \<and> \<not> domainVerified p'"
    using assms(3,4) h
    by (subst acc)
      (auto simp: findUnique_update_where [OF assms(2)] updateData_id updateData_def Let_def)
  from h have "truthy dfield \<or> truthy sfield" by simp
  from PUT_project_domain_written [OF assms(1,2,3,4) this assms(7,8)]
  obtain fd fs where
    written: "files (snd (PUT_project_domain w tok pid dfield sfield st)) (projectConfigPath w (slug p)) =
        Some (traefikConfig (now w) (slug p) fd (Some fs)
                (kongPort (getProjectPorts (envVarsMap (envVars p))))
                (studioPort (getProjectPorts (envVarsMap (envVars p)))))"
    and lines: "CHR 0x0A \<notin> set fd" "CHR 0x0A \<notin> set fs"
    and fd: "truthy dfield \<longrightarrow> fd = str_of dfield"
    by blast
  from fd h have fd': "fd = d" "fd \<noteq> []" by simp_all
  have fs': "CHR 0x0A \<notin> set (or_default (Some fs) [])"
    using lines(2) by (simp add: or_default_def)
  note decl = declarations_of_document [OF assms(5) lines(1) fs' assms(6),
      of "now w" "kongPort (getProjectPorts (envVarsMap (envVars p)))"
         "studioPort (getProjectPorts (envVarsMap (envVars p)))"]
  show \<open>\<exists>doc rs ss.
          files (snd (PUT_project_domain w tok pid dfield sfield st)) (projectConfigPath w (slug p)) = Some doc \<and>
          routers doc =
          [(slug p @ ''-api'',
             [''      rule: "Host(`'' @ d @ ''`)"'',
              ''      entryPoints:'',
              ''        - websecure'',
              ''      service: '' @ slug p @ ''-api'',
              ''      tls:'',
              ''        certResolver: letsencrypt'',
              ''      priority: 10'']),
           (slug p @ ''-api-http'',
             [''      rule: "Host(`'' @ d @ ''`)"'',
              ''      entryPoints:'',
              ''        - web'',
              ''      middlewares:'',
              ''        - https-redirect'',
              ''      service: '' @ slug p @ ''-api'',
              ''      priority: 5''])] @ rs \<and>
          services doc =
          [(slug p @ ''-api'',
             [''      loadBalancer:'',
              ''        servers:'',
              ''          - url: "http://'' @ slug p @ ''-kong:'' @ show_number (kongPort (getProjectPorts (envVarsMap (envVars p)))) @ ''"'',
              ''        healthCheck:'',
              ''          path: /health'',
              ''          interval: 30s'',
              ''          timeout: 5s''])] @ ss\<close>
    unfolding written using decl fd' by simp
next
  assume h: "sfield = Str s \<and> s \<noteq> [] \<and> verifyDomainDNS (resolver w) s = Inr False"
  note acc = PUT_project_domain_accepted [OF assms(1) _ _ _ assms(2) _ _ refl refl refl refl refl,
      of dfield sfield]
  show "\<exists>ad av msg. fst (PUT_project_domain w tok pid dfield sfield st) = DomainSaved ad av (Some s) False msg \<and>
          suffix ''Studio domain configured (DNS pending)'' msg"
    using assms(3,4) h
    by (subst acc) (auto simp: updateData_def responseMessage_def or_default_def Let_def suffix_def)
  show "\<exists>p'. findUnique pid (projects (snd (PUT_project_domain w tok pid dfield sfield st))) = Some p' \<and>
          studioDomain p' = Some s \<and> \<not> studioDomainVerified p'"
    using assms(3,4) h
    by (subst acc)
      (auto simp: findUnique_update_where [OF assms(2)] updateData_id updateData_def Let_def)
  from h have "truthy dfield \<or> truthy sfield" by simp
  from PUT_project_domain_written [OF assms(1,2,3,4) this assms(7,8)]
  obtain fd fs where
    written: "files (snd (PUT_project_domain w tok pid dfield sfield st)) (projectConfigPath w (slug p)) =
        Some (traefikConfig (now w) (slug p) fd (Some fs)
                (kongPort (getProjectPorts (envVarsMap (envVars p))))
                (studioPort (getProjectPorts (envVarsMap (envVars p)))))"
    and lines: "CHR 0x0A \<notin> set fd" "CHR 0x0A \<notin> set fs"
    and fs: "truthy sfield \<longrightarrow> fs = str_of sfield"
    by blast
  from fs h have fs': "or_default (Some fs) [] = s" "s \<noteq> []" by (simp_all add: or_default_def)
  have fsl: "CHR 0x0A \<notin> set (or_default (Some fs) [])"
    using lines(2) by (simp add: or_default_def)
  note decl = declarations_of_document [OF assms(5) lines(1) fsl assms(6), unfolded fs'(1),
      of "now w" "kongPort (getProjectPorts (envVarsMap (envVars p)))"
         "studioPort (getProjectPorts (envVarsMap (envVars p)))"]
  show \<open>\<exists>doc rs ss.
          files (snd (PUT_project_domain w tok pid dfield sfield st)) (projectConfigPath w (slug p)) = Some doc \<and>
          routers doc = rs @
          [(slug p @ ''-studio'',
             [''      rule: "Host(`'' @ s @ ''`)"'',
              ''      entryPoints:'',
              ''        - websecure'',
              ''      service: '' @ slug p @ ''-studio'',
              ''      tls:'',
              ''        certResolver: letsencrypt'',
              ''      priority: 10'']),
           (slug p @ ''-studio-http'',
             [''      rule: "Host(`'' @ s @ ''`)"'',
              ''      entryPoints:'',
              ''        - web'',
              ''      middlewares:'',
              ''        - https-redirect'',
              ''      service: '' @ slug p @ ''-studio'',
              ''      priority: 5''])] \<and>
          services doc = ss @
          [(slug p @ ''-studio'',
             [''      loadBalancer:'',
              ''        servers:'',
              ''          - url: "http://'' @ slug p @ ''-studio:'' @ show_number (studioPort (getProjectPorts (envVarsMap (envVars p)))) @ ''"''])]\<close>
    unfolding written using decl fs'(2) by simp
qed

lemma demo_new:
  "domainRegex_test ''new.demo.test''"
  "findFirst (\<lambda>q. domain q = Some ''new.demo.test'' \<and> project_id q \<noteq> ''B'') (projects demo_state) = None"
  by (simp_all add: regex_eval findFirst_def demo_state_def project_alpha_def project_demo_def)

theorem domain_update_succeeds_while_dns_pending_witness:
  \<open>findUnique ''B'' (projects demo_state) = Some project_demo \<and>
   domain project_demo = Some ''api.demo.test'' \<and>
   (\<exists>sd sv msg. fst (PUT_project_domain demo_world (Some ''session-1'') ''B'' (Str ''new.demo.test'')
        Undefined demo_state) = DomainSaved (Some ''new.demo.test'') False sd sv msg \<and>
      prefix ''API domain configured (DNS pending)'' msg) \<and>
   (\<exists>p'. findUnique ''B'' (projects (snd (PUT_project_domain demo_world (Some ''session-1'') ''B''
        (Str ''new.demo.test'') Undefined demo_state))) = Some p' \<and>
      domain p' = Some ''new.demo.test'' \<and> \<not> domainVerified p') \<and>
   (\<exists>doc rs ss. files (snd (PUT_project_domain demo_world (Some ''session-1'') ''B'' (Str ''new.demo.test'')
        Undefined demo_state)) demo_yml = Some doc \<and>
      routers doc =
        [(''demo'' @ ''-api'',
           [''      rule: "Host(`'' @ ''new.demo.test'' @ ''`)"'',
            ''      entryPoints:'',
            ''        - websecure'',
            ''      service: '' @ ''demo'' @ ''-api'',
            ''      tls:'',
            ''        certResolver: letsencrypt'',
            ''      priority: 10'']),
         (''demo'' @ ''-api-http'',
           [''      rule: "Host(`'' @ ''new.demo.test'' @ ''`)"'',
            ''      entryPoints:'',
            ''        - web'',
            ''      middlewares:'',
            ''        - https-redirect'',
            ''      service: '' @ ''demo'' @ ''-api'',
            ''      priority: 5''])] @ rs \<and>
      map fst (services doc) = ''demo-api'' # ss)\<close>
proof -
  have row: "domain project_demo = Some ''api.demo.test''" "studioDomain project_demo = None"
    by (simp_all add: project_demo_def)
  from domain_update_succeeds_while_dns_pending [OF demo_auth demo_find,
      of "Str ''new.demo.test''" Undefined "''new.demo.test''" "[]"]
  have inst: \<open>(\<exists>sd sv msg. fst (PUT_project_domain demo_world (Some ''session-1'') ''B'' (Str ''new.demo.test'')
        Undefined demo_state) = DomainSaved (Some ''new.demo.test'') False sd sv msg \<and>
      prefix ''API domain configured (DNS pending)'' msg) \<and>
   (\<exists>p'. findUnique ''B'' (projects (snd (PUT_project_domain demo_world (Some ''session-1'') ''B''
        (Str ''new.demo.test'') Undefined demo_state))) = Some p' \<and>
      domain p' = Some ''new.demo.test'' \<and> \<not> domainVerified p') \<and>
   (\<exists>doc rs ss. files (snd (PUT_project_domain demo_world (Some ''session-1'') ''B'' (Str ''new.demo.test'')
        Undefined demo_state)) demo_yml = Some doc \<and>
      routers doc =
        [(''demo'' @ ''-api'',
           [''      rule: "Host(`'' @ ''new.demo.test'' @ ''`)"'',
            ''      entryPoints:'',
            ''        - websecure'',
            ''      service: '' @ ''demo'' @ ''-api'',
            ''      tls:'',
            ''        certResolver: letsencrypt'',
            ''      priority: 10'']),
         (''demo'' @ ''-api-http'',
           [''      rule: "Host(`'' @ ''new.demo.test'' @ ''`)"'',
            ''      entryPoints:'',
            ''        - web'',
            ''      middlewares:'',
            ''        - https-redirect'',
            ''      service: '' @ ''demo'' @ ''-api'',
            ''      priority: 5''])] @ rs \<and>
      services doc =
        [(''demo'' @ ''-api'',
           [''      loadBalancer:'',
            ''        servers:'',
            ''          - url: "http://'' @ ''demo'' @ ''-kong:'' @ show_number ((Num 8080)) @ ''"'',
            ''        healthCheck:'',
            ''          path: /health'',
            ''          interval: 30s'',
            ''          timeout: 5s''])] @ ss)\<close>
    by (simp add: row demo_new demo_verify demo_slug demo_path demo_ports)
  then obtain doc rs ss where
    \<open>files (snd (PUT_project_domain demo_world (Some ''session-1'') ''B'' (Str ''new.demo.test'')
        Undefined demo_state)) demo_yml = Some doc\<close>
    \<open>routers doc =
        [(''demo'' @ ''-api'',
           [''      rule: "Host(`'' @ ''new.demo.test'' @ ''`)"'',
            ''      entryPoints:'',
            ''        - websecure'',
            ''      service: '' @ ''demo'' @ ''-api'',
            ''      tls:'',
            ''        certResolver: letsencrypt'',
            ''      priority: 10'']),
         (''demo'' @ ''-api-http'',
           [''      rule: "Host(`'' @ ''new.demo.test'' @ ''`)"'',
            ''      entryPoints:'',
            ''        - web'',
            ''      middlewares:'',
            ''        - https-redirect'',
            ''      service: '' @ ''demo'' @ ''-api'',
            ''      priority: 5''])] @ rs\<close>
    \<open>services doc =
        [(''demo'' @ ''-api'',
           [''      loadBalancer:'',
            ''        servers:'',
            ''          - url: "http://'' @ ''demo'' @ ''-kong:'' @ show_number ((Num 8080)) @ ''"'',
            ''        healthCheck:'',
            ''          path: /health'',
            ''          interval: 30s'',
            ''          timeout: 5s''])] @ ss\<close>
    by blast
  then have \<open>\<exists>doc rs ss. files (snd (PUT_project_domain demo_world (Some ''session-1'') ''B'' (Str ''new.demo.test'')
        Undefined demo_state)) demo_yml = Some doc \<and>
      routers doc =
        [(''demo'' @ ''-api'',
           [''      rule: "Host(`'' @ ''new.demo.test'' @ ''`)"'',
            ''      entryPoints:'',
            ''        - websecure'',
            ''      service: '' @ ''demo'' @ ''-api'',
            ''      tls:'',
            ''        certResolver: letsencrypt'',
            ''      priority: 10'']),
         (''demo'' @ ''-api-http'',
           [''      rule: "Host(`'' @ ''new.demo.test'' @ ''`)"'',
            ''      entryPoints:'',
            ''        - web'',
            ''      middlewares:'',
            ''        - https-redirect'',
            ''      service: '' @ ''demo'' @ ''-api'',
            ''      priority: 5''])] @ rs \<and>
      map fst (services doc) = ''demo-api'' # ss\<close>
    by simp
  with inst show ?thesis
    by (simp add: demo_find row)
qed

text \<open>The placeholder that the panel route writes declares nothing.\<close>

lemma panel_placeholder_declares_nothing: "routers emptyConfig = [] \<and> services emptyConfig = []"
  by (simp add: routers_def services_def emptyConfig_def join_lines_def lines_of_def
      is_content_def section_of_def)

end
